theory Spec2Isabelle
  imports Main
begin

section \<open>Application lifecycle orchestrator of Service Hub\<close>

text \<open>
  A shallow embedding of \<^verbatim>\<open>ApplicationManager\<close>
  (\<^verbatim>\<open>src/application/managers/applications.py\<close>): \<^verbatim>\<open>install\<close>, \<^verbatim>\<open>upgrade\<close>,
  \<^verbatim>\<open>update_user_inputs\<close> and \<^verbatim>\<open>terminate\<close>. The manager drives three collaborators
  whose code is not part of the sources at hand: the template utilities
  (\<^verbatim>\<open>validate_inputs\<close>, \<^verbatim>\<open>render_template\<close>, \<^verbatim>\<open>load_template\<close>), the Helm manager and
  the application database. The first two are parameters of the model; the database is a
  small store. Every \<^verbatim>\<open>raise\<close> is an \<open>Inl\<close> result, and every effect is written into an
  explicit world that the operations pass along.
\<close>

subsection \<open>Python dictionaries and strings\<close>

text \<open>
  A \<^verbatim>\<open>dict\<close> is an association list in insertion order; a key is looked up at its first
  entry. \<^verbatim>\<open>d[k]\<close> raises \<^verbatim>\<open>KeyError\<close> on a missing key, \<^verbatim>\<open>d[k] = v\<close> overwrites in
  place or appends, \<^verbatim>\<open>{**a, **b}\<close> copies \<open>a\<close> and stores the items of \<open>b\<close> in order,
  and \<^verbatim>\<open>d.keys()\<close> is a set-like view.
\<close>

datatype error =
    HelmException string
  | InvalidUserInputsException string
  | KeyError string
  | TemplateException string
  | CommonException string nat

type_synonym 'a dict = "(string \<times> 'a) list"

definition dict_keys :: "'a dict \<Rightarrow> string set" where
  "dict_keys d = set (map fst d)"

definition dict_get :: "'a dict \<Rightarrow> string \<Rightarrow> error + 'a" where
  "dict_get d k = (case map_of d k of None \<Rightarrow> Inl (KeyError k) | Some v \<Rightarrow> Inr v)"

fun dict_set :: "'a dict \<Rightarrow> string \<Rightarrow> 'a \<Rightarrow> 'a dict" where
  "dict_set [] k v = [(k, v)]"
| "dict_set ((k', v') # d) k v = (if k' = k then (k, v) # d else (k', v') # dict_set d k v)"

definition dict_merge :: "'a dict \<Rightarrow> 'a dict \<Rightarrow> 'a dict" where
  "dict_merge a b = fold (\<lambda>(k, v) d. dict_set d k v) b a"

text \<open>\<^verbatim>\<open>sep.join(xs)\<close>.\<close>

fun join :: "string \<Rightarrow> string list \<Rightarrow> string" where
  "join sep [] = []"
| "join sep [x] = x"
| "join sep (x # y # ys) = x @ sep @ join sep (y # ys)"

subsection \<open>Data model\<close>

text \<open>
  The type \<open>'v\<close> stands for the JSON-like values of user inputs and of chart values.
  Python's \<^verbatim>\<open>!=\<close> on two such values is not the negation of their identity
  (\<^verbatim>\<open>nan != nan\<close> holds, \<^verbatim>\<open>1 != True\<close> and \<^verbatim>\<open>1 != 1.0\<close> do not), so the operation that
  compares values takes it as the parameter \<open>py_ne\<close>.
\<close>

record organization =
  org_id :: nat

record user =
  user_id :: string
  user_organization :: organization

record template_revision =
  tr_id :: nat
  tr_template :: string

record 'v chart_schema =
  ch_name :: string
  ch_chart :: string
  ch_version :: string
  ch_values :: 'v

text \<open>
  \<open>in_default\<close> is \<open>Some d\<close> exactly when \<^verbatim>\<open>'default' in input.__fields_set__\<close>.
\<close>

record 'v input_schema =
  in_name :: string
  in_default :: "'v option"
  in_immutable :: bool

text \<open>
  Modelled from the spec: the template schema class is not in the sources. A parsed manifest
  yields an ordered sequence of chart declarations, a mapping from release name to
  declaration, and an inputs schema (also as a mapping by input name).
\<close>

record 'v template_schema =
  schema_name :: string
  inputs :: "'v input_schema list"
  inputs_mapping :: "'v input_schema dict"
  charts :: "'v chart_schema list"
  chart_mapping :: "'v chart_schema dict"

text \<open>
  Modelled from the spec: \<^verbatim>\<open>ApplicationStatuses\<close> is not in the sources; \<open>running\<close> is the
  only status the manager sets.
\<close>

datatype application_statuses = Running

text \<open>
  The persisted application. The ORM relations \<^verbatim>\<open>application.template\<close> and
  \<^verbatim>\<open>application.organization\<close> are held as the referenced objects; \<^verbatim>\<open>template_id\<close> and
  \<^verbatim>\<open>organization_id\<close> are their identities.
\<close>

record 'v application =
  app_id :: nat
  app_name :: string
  description :: string
  manifest :: string
  status :: application_statuses
  context_name :: string
  namespace :: string
  user_inputs :: "'v dict"
  template :: template_revision
  creator_id :: string
  organization :: organization

subsection \<open>Collaborators\<close>

text \<open>
  The template utilities are parameters. \<open>validate_inputs\<close> returns \<open>Some e\<close> when it
  raises \<open>e\<close>, the other two return \<open>Inl e\<close>.
\<close>

record 'v template_utils =
  validate_inputs :: "string \<Rightarrow> 'v dict \<Rightarrow> error option"
  render_template :: "string \<Rightarrow> 'v dict \<Rightarrow> error + string"
  load_template :: "string \<Rightarrow> error + 'v template_schema"

text \<open>
  The calls of the Helm manager, with the keyword arguments in the order the manager writes
  them. \<^verbatim>\<open>uninstall_release\<close> is called without \<^verbatim>\<open>dry_run\<close> on the clean-up paths and in
  \<^verbatim>\<open>terminate\<close>: \<open>None\<close> is the omitted argument.
\<close>

datatype 'v helm_call =
    InstallChart organization string string string string string 'v bool
  | UpdateRelease organization string string string string 'v bool
  | UninstallRelease organization string string string "bool option"

fun call_dry_run :: "'v helm_call \<Rightarrow> bool option" where
  "call_dry_run (InstallChart org ctx ns rel chart ver vals d) = Some d"
| "call_dry_run (UpdateRelease org ctx ns rel chart vals d) = Some d"
| "call_dry_run (UninstallRelease org ctx ns rel d) = d"

text \<open>
  Modelled from the spec: the Helm manager is not in the sources. Each call may fail with
  the chart-operation error (\<^verbatim>\<open>HelmException\<close>, \<open>Inl\<close> of its message) or return a result
  of type \<open>'r\<close>. Its answer may depend on everything asked of it before, so it is a function
  of the calls issued so far and the present call; any sequence of outcomes is such a function.
\<close>

type_synonym ('v, 'r) helm_manager = "'v helm_call list \<Rightarrow> 'v helm_call \<Rightarrow> string + 'r"

text \<open>
  Modelled from the spec: the application database is not in the sources. \<open>create\<close> stores a
  new record under a fresh identity and returns it, \<open>save\<close> overwrites the record of that
  identity, \<open>delete\<close> removes it.
\<close>

record 'v store =
  records :: "nat \<rightharpoonup> 'v application"
  next_id :: nat

definition db_create :: "'v store \<Rightarrow> 'v application \<Rightarrow> 'v application \<times> 'v store" where
  "db_create s a =
     (let r = a\<lparr>app_id := next_id s\<rparr>
      in (r, s\<lparr>records := (records s)(next_id s \<mapsto> r), next_id := Suc (next_id s)\<rparr>))"

definition db_save :: "'v store \<Rightarrow> 'v application \<Rightarrow> 'v store" where
  "db_save s a = s\<lparr>records := (records s)(app_id a \<mapsto> a)\<rparr>"

definition db_delete :: "'v store \<Rightarrow> nat \<Rightarrow> 'v store" where
  "db_delete s i = s\<lparr>records := (records s)(i := None)\<rparr>"

text \<open>
  The messages of \<^verbatim>\<open>logging.exception\<close>, one constructor per call site, with the values
  the message interpolates: the chart or release, the organization id and the template id.
\<close>

datatype log_entry =
    InstallFailed string nat nat
  | InstallCleanupFailed string nat nat
  | UpgradeFailed string nat nat
  | UpgradeCleanupFailed string nat nat
  | UpgradeRemoveFailed string nat nat
  | TerminateRemoveFailed string nat nat

text \<open>The world: the calls issued to the Helm manager (oldest first), the database, the log.\<close>

record 'v world =
  helm_calls :: "'v helm_call list"
  db :: "'v store"
  logged :: "log_entry list"

definition call_helm ::
  "('v, 'r) helm_manager \<Rightarrow> 'v helm_call \<Rightarrow> 'v world \<Rightarrow> (string + 'r) \<times> 'v world" where
  "call_helm helm c w = (helm (helm_calls w) c, w\<lparr>helm_calls := helm_calls w @ [c]\<rparr>)"

definition log_exception :: "log_entry \<Rightarrow> 'v world \<Rightarrow> 'v world" where
  "log_exception e w = w\<lparr>logged := logged w @ [e]\<rparr>"

subsection \<open>Install\<close>

definition install_call ::
  "organization \<Rightarrow> string \<Rightarrow> string \<Rightarrow> bool \<Rightarrow> 'v chart_schema \<Rightarrow> 'v helm_call" where
  "install_call org ctx ns dry_run c =
     InstallChart org ctx ns (ch_name c) (ch_chart c) (ch_version c) (ch_values c) dry_run"

text \<open>
  The loop in the \<^verbatim>\<open>try\<close> block of \<^verbatim>\<open>install\<close>. A failing call leaves the loop with the
  message, the \<^verbatim>\<open>index\<close> and the \<^verbatim>\<open>chart\<close> of that iteration.
\<close>

fun install_charts ::
  "('v, 'r) helm_manager \<Rightarrow> organization \<Rightarrow> string \<Rightarrow> string \<Rightarrow> bool \<Rightarrow> nat \<Rightarrow>
   'v chart_schema list \<Rightarrow> 'r dict \<Rightarrow> 'v world \<Rightarrow>
   ((string \<times> nat \<times> 'v chart_schema) + 'r dict) \<times> 'v world" where
  "install_charts helm org ctx ns dry_run index [] results w = (Inr results, w)"
| "install_charts helm org ctx ns dry_run index (c # cs) results w =
     (case call_helm helm (install_call org ctx ns dry_run c) w of
        (Inl msg, w') \<Rightarrow> (Inl (msg, index, c), w')
      | (Inr r, w') \<Rightarrow>
          install_charts helm org ctx ns dry_run (Suc index) cs (dict_set results (ch_name c) r) w')"

text \<open>
  The clean-up loop: one \<^verbatim>\<open>uninstall_release\<close> per chart, a failure logged and passed over.
\<close>

fun uninstall_charts ::
  "('v, 'r) helm_manager \<Rightarrow> organization \<Rightarrow> string \<Rightarrow> string \<Rightarrow> (string \<Rightarrow> log_entry) \<Rightarrow>
   'v chart_schema list \<Rightarrow> 'v world \<Rightarrow> 'v world" where
  "uninstall_charts helm org ctx ns entry [] w = w"
| "uninstall_charts helm org ctx ns entry (c # cs) w =
     (case call_helm helm (UninstallRelease org ctx ns (ch_name c) None) w of
        (Inl msg, w') \<Rightarrow>
          uninstall_charts helm org ctx ns entry cs (log_exception (entry (ch_name c)) w')
      | (Inr r, w') \<Rightarrow> uninstall_charts helm org ctx ns entry cs w')"

text \<open>
  \<^verbatim>\<open>install\<close>. The dict handed to \<^verbatim>\<open>db.create\<close> carries no identity (\<open>app_id\<close> is set by
  the store); the result is the pair of \<^verbatim>\<open>application\<close> and \<^verbatim>\<open>results\<close>.
\<close>

definition install ::
  "'v template_utils \<Rightarrow> ('v, 'r) helm_manager \<Rightarrow> string \<Rightarrow> string \<Rightarrow> user \<Rightarrow>
   template_revision \<Rightarrow> 'v dict \<Rightarrow> bool \<Rightarrow> 'v world \<Rightarrow>
   (error + ('v application option \<times> 'r dict)) \<times> 'v world" where
  "install tu helm ctx ns usr tmpl inps dry_run w =
     (case validate_inputs tu (tr_template tmpl) inps of
        Some e \<Rightarrow> (Inl e, w)
      | None \<Rightarrow>
     (case render_template tu (tr_template tmpl) inps of
        Inl e \<Rightarrow> (Inl e, w)
      | Inr rendered \<Rightarrow>
     (case load_template tu rendered of
        Inl e \<Rightarrow> (Inl e, w)
      | Inr manifest_schema \<Rightarrow>
     (case install_charts helm (user_organization usr) ctx ns dry_run 0
             (charts manifest_schema) [] w of
        (Inl (msg, index, chart), w1) \<Rightarrow>
          (Inl (HelmException msg),
           if \<not> dry_run then
             uninstall_charts helm (user_organization usr) ctx ns
               (\<lambda>rel. InstallCleanupFailed rel (org_id (user_organization usr)) (tr_id tmpl))
               (rev (take index (charts manifest_schema)))
               (log_exception
                  (InstallFailed (ch_chart chart) (org_id (user_organization usr)) (tr_id tmpl)) w1)
           else w1)
      | (Inr results, w1) \<Rightarrow>
          if \<not> dry_run then
            (let (application_record, db') =
               db_create (db w1)
                 \<lparr>app_id = 0, app_name = schema_name manifest_schema, description = '''',
                  manifest = rendered, status = Running, context_name = ctx, namespace = ns,
                  user_inputs = inps, template = tmpl, creator_id = user_id usr,
                  organization = user_organization usr\<rparr>
             in (Inr (Some application_record, results), w1\<lparr>db := db'\<rparr>))
          else (Inr (None, results), w1)))))"

subsection \<open>Upgrade\<close>

text \<open>
  The defaults of the new template: a dict comprehension over the inputs that have their
  \<^verbatim>\<open>default\<close> field set.
\<close>

definition input_defaults :: "'v input_schema list \<Rightarrow> 'v dict" where
  "input_defaults ins =
     fold (\<lambda>i d. case in_default i of None \<Rightarrow> d | Some v \<Rightarrow> dict_set d (in_name i) v) ins []"

definition merged_inputs :: "'v template_schema \<Rightarrow> 'v application \<Rightarrow> 'v dict" where
  "merged_inputs new_template_schema a =
     dict_merge (input_defaults (inputs new_template_schema)) (user_inputs a)"

text \<open>The three key sets, as the set operations on the \<^verbatim>\<open>keys()\<close> views compute them.\<close>

definition charts_to_install :: "'v template_schema \<Rightarrow> 'v template_schema \<Rightarrow> string set" where
  "charts_to_install old_schema new_schema =
     dict_keys (chart_mapping new_schema) - dict_keys (chart_mapping old_schema)"

definition releases_to_remove :: "'v template_schema \<Rightarrow> 'v template_schema \<Rightarrow> string set" where
  "releases_to_remove old_schema new_schema =
     dict_keys (chart_mapping old_schema) - dict_keys (chart_mapping new_schema)"

definition releases_to_update :: "'v template_schema \<Rightarrow> 'v template_schema \<Rightarrow> string set" where
  "releases_to_update old_schema new_schema =
     dict_keys (chart_mapping old_schema) \<inter> dict_keys (chart_mapping new_schema)"

definition update_call ::
  "organization \<Rightarrow> string \<Rightarrow> string \<Rightarrow> bool \<Rightarrow> string \<Rightarrow> 'v chart_schema \<Rightarrow> 'v helm_call" where
  "update_call org ctx ns dry_run release_name c =
     UpdateRelease org ctx ns release_name (ch_chart c) (ch_values c) dry_run"

text \<open>
  The first loop of \<^verbatim>\<open>upgrade\<close>, over the names to install, carrying
  \<^verbatim>\<open>installed_charts\<close> and \<^verbatim>\<open>install_results\<close>. The \<^verbatim>\<open>except\<close> clause cleans up (unless
  \<^verbatim>\<open>dry_run\<close>) and raises again.
\<close>

fun upgrade_install ::
  "('v, 'r) helm_manager \<Rightarrow> 'v application \<Rightarrow> template_revision \<Rightarrow> bool \<Rightarrow>
   'v chart_schema dict \<Rightarrow> string list \<Rightarrow> 'v chart_schema list \<Rightarrow> 'r dict \<Rightarrow> 'v world \<Rightarrow>
   (error + 'r dict) \<times> 'v world" where
  "upgrade_install helm a tmpl dry_run mapping [] installed_charts install_results w =
     (Inr install_results, w)"
| "upgrade_install helm a tmpl dry_run mapping (release_name # rest) installed_charts
     install_results w =
     (case dict_get mapping release_name of
        Inl e \<Rightarrow> (Inl e, w)
      | Inr chart \<Rightarrow>
     (case call_helm helm
             (install_call (organization a) (context_name a) (namespace a) dry_run chart) w of
        (Inr r, w') \<Rightarrow>
          upgrade_install helm a tmpl dry_run mapping rest (installed_charts @ [chart])
            (dict_set install_results (ch_name chart) r) w'
      | (Inl msg, w') \<Rightarrow>
          (Inl (HelmException msg),
           if \<not> dry_run then
             uninstall_charts helm (organization a) (context_name a) (namespace a)
               (\<lambda>rel. UpgradeCleanupFailed rel (org_id (organization a)) (tr_id tmpl))
               (rev installed_charts)
               (log_exception
                  (UpgradeFailed (ch_chart chart) (org_id (organization a)) (tr_id tmpl)) w')
           else w')))"

text \<open>The second loop: \<^verbatim>\<open>update_release\<close> for every name to update, with no handler.\<close>

fun upgrade_update ::
  "('v, 'r) helm_manager \<Rightarrow> 'v application \<Rightarrow> bool \<Rightarrow> 'v chart_schema dict \<Rightarrow> string list \<Rightarrow>
   'r dict \<Rightarrow> 'v world \<Rightarrow> (error + 'r dict) \<times> 'v world" where
  "upgrade_update helm a dry_run mapping [] update_results w = (Inr update_results, w)"
| "upgrade_update helm a dry_run mapping (release_name # rest) update_results w =
     (case dict_get mapping release_name of
        Inl e \<Rightarrow> (Inl e, w)
      | Inr chart \<Rightarrow>
     (case call_helm helm
             (update_call (organization a) (context_name a) (namespace a) dry_run
                release_name chart) w of
        (Inl msg, w') \<Rightarrow> (Inl (HelmException msg), w')
      | (Inr r, w') \<Rightarrow>
          upgrade_update helm a dry_run mapping rest (dict_set update_results release_name r) w'))"

text \<open>
  The third loop: \<^verbatim>\<open>uninstall_release\<close> for every name to remove, a failure passed over
  (and logged unless \<^verbatim>\<open>dry_run\<close>).
\<close>

fun upgrade_remove ::
  "('v, 'r) helm_manager \<Rightarrow> 'v application \<Rightarrow> bool \<Rightarrow> 'v chart_schema dict \<Rightarrow> string list \<Rightarrow>
   'v world \<Rightarrow> (error + unit) \<times> 'v world" where
  "upgrade_remove helm a dry_run mapping [] w = (Inr (), w)"
| "upgrade_remove helm a dry_run mapping (release_name # rest) w =
     (case dict_get mapping release_name of
        Inl e \<Rightarrow> (Inl e, w)
      | Inr chart \<Rightarrow>
     (case call_helm helm
             (UninstallRelease (organization a) (context_name a) (namespace a) (ch_name chart)
                (Some dry_run)) w of
        (Inl msg, w') \<Rightarrow>
          upgrade_remove helm a dry_run mapping rest
            (if \<not> dry_run then
               log_exception
                 (UpgradeRemoveFailed (ch_name chart) (org_id (organization a))
                    (tr_id (template a))) w'
             else w')
      | (Inr r, w') \<Rightarrow> upgrade_remove helm a dry_run mapping rest w'))"

text \<open>
  \<open>iter\<close> is the order in which Python iterates over a set of strings; the language does not
  fix it, so it is a parameter. The result is the triple of \<^verbatim>\<open>installed_releases\<close>,
  \<^verbatim>\<open>updated_releases\<close> and \<^verbatim>\<open>uninstalled_releases\<close>.
\<close>

definition upgrade ::
  "'v template_utils \<Rightarrow> ('v, 'r) helm_manager \<Rightarrow> (string set \<Rightarrow> string list) \<Rightarrow>
   'v application \<Rightarrow> template_revision \<Rightarrow> bool \<Rightarrow> 'v world \<Rightarrow>
   (error + ('r dict \<times> 'r dict \<times> string list)) \<times> 'v world" where
  "upgrade tu helm iter a tmpl dry_run w =
     (case load_template tu (tr_template tmpl) of
        Inl e \<Rightarrow> (Inl e, w)
      | Inr new_template_schema \<Rightarrow>
     (case render_template tu (tr_template tmpl) (merged_inputs new_template_schema a) of
        Inl e \<Rightarrow> (Inl e, w)
      | Inr rendered_template \<Rightarrow>
     (case load_template tu rendered_template of
        Inl e \<Rightarrow> (Inl e, w)
      | Inr new_schema \<Rightarrow>
     (case load_template tu (manifest a) of
        Inl e \<Rightarrow> (Inl e, w)
      | Inr old_schema \<Rightarrow>
     (case upgrade_install helm a tmpl dry_run (chart_mapping new_schema)
             (iter (charts_to_install old_schema new_schema)) [] [] w of
        (Inl e, w1) \<Rightarrow> (Inl e, w1)
      | (Inr install_results, w1) \<Rightarrow>
     (case upgrade_update helm a dry_run (chart_mapping new_schema)
             (iter (releases_to_update old_schema new_schema)) [] w1 of
        (Inl e, w2) \<Rightarrow> (Inl e, w2)
      | (Inr update_results, w2) \<Rightarrow>
     (case upgrade_remove helm a dry_run (chart_mapping old_schema)
             (iter (releases_to_remove old_schema new_schema)) w2 of
        (Inl e, w3) \<Rightarrow> (Inl e, w3)
      | (Inr u, w3) \<Rightarrow>
          (Inr (install_results, update_results, iter (releases_to_remove old_schema new_schema)),
           if \<not> dry_run then
             w3\<lparr>db := db_save (db w3)
                    (a\<lparr>manifest := rendered_template, template := tmpl,
                       user_inputs := merged_inputs new_template_schema a\<rparr>)\<rparr>
           else w3))))))))"

subsection \<open>Update of user inputs\<close>

definition immutable_inputs :: "'v template_schema \<Rightarrow> string list" where
  "immutable_inputs old_schema =
     map fst (filter (\<lambda>(name, i). in_immutable i) (inputs_mapping old_schema))"

text \<open>
  The loop that collects \<^verbatim>\<open>violating_inputs\<close>. Both subscriptions may raise \<^verbatim>\<open>KeyError\<close>,
  the one on the new inputs first; the two values are compared by Python's \<^verbatim>\<open>!=\<close>.
\<close>

fun violating_inputs ::
  "('v \<Rightarrow> 'v \<Rightarrow> bool) \<Rightarrow> 'v dict \<Rightarrow> 'v dict \<Rightarrow> string list \<Rightarrow> string list \<Rightarrow>
   error + string list" where
  "violating_inputs py_ne inps stored [] acc = Inr acc"
| "violating_inputs py_ne inps stored (input_name # rest) acc =
     (case dict_get inps input_name of
        Inl e \<Rightarrow> Inl e
      | Inr new_value \<Rightarrow>
     (case dict_get stored input_name of
        Inl e \<Rightarrow> Inl e
      | Inr old_value \<Rightarrow>
          violating_inputs py_ne inps stored rest
            (if py_ne new_value old_value then acc @ [input_name] else acc)))"

text \<open>
  The statement under \<^verbatim>\<open>if absent_release_names:\<close> builds a \<^verbatim>\<open>CommonException\<close> (status
  400) and drops it: there is no \<^verbatim>\<open>raise\<close>.
\<close>

definition absent_release_error :: "(string set \<Rightarrow> string list) \<Rightarrow> string set \<Rightarrow> error" where
  "absent_release_error iter absent_release_names =
     CommonException
       (''Failed to update user inputs. Unable to find charts with release names '' @
        join '', '' (iter absent_release_names) @
        '' in manifest rendered with new user inputs.'') 400"

text \<open>The loop over \<^verbatim>\<open>chart_mapping.items()\<close>, with no handler.\<close>

fun update_releases ::
  "('v, 'r) helm_manager \<Rightarrow> 'v application \<Rightarrow> bool \<Rightarrow> 'v chart_schema dict \<Rightarrow> 'r dict \<Rightarrow>
   'v world \<Rightarrow> (error + 'r dict) \<times> 'v world" where
  "update_releases helm a dry_run [] update_results w = (Inr update_results, w)"
| "update_releases helm a dry_run ((release_name, chart) # rest) update_results w =
     (case call_helm helm
             (update_call (organization a) (context_name a) (namespace a) dry_run
                release_name chart) w of
        (Inl msg, w') \<Rightarrow> (Inl (HelmException msg), w')
      | (Inr r, w') \<Rightarrow>
          update_releases helm a dry_run rest (dict_set update_results release_name r) w')"

definition update_user_inputs ::
  "'v template_utils \<Rightarrow> ('v, 'r) helm_manager \<Rightarrow> (string set \<Rightarrow> string list) \<Rightarrow>
   ('v \<Rightarrow> 'v \<Rightarrow> bool) \<Rightarrow> 'v application \<Rightarrow> 'v dict \<Rightarrow> bool \<Rightarrow> 'v world \<Rightarrow>
   (error + 'r dict) \<times> 'v world" where
  "update_user_inputs tu helm iter py_ne a inps dry_run w =
     (case load_template tu (manifest a) of
        Inl e \<Rightarrow> (Inl e, w)
      | Inr old_schema \<Rightarrow>
     (case validate_inputs tu (manifest a) inps of
        Some e \<Rightarrow> (Inl e, w)
      | None \<Rightarrow>
     if dict_keys inps \<noteq> dict_keys (user_inputs a) then
       (Inl (InvalidUserInputsException ''List of current and new inputs are not equal.''), w)
     else
     (case violating_inputs py_ne inps (user_inputs a) (immutable_inputs old_schema) [] of
        Inl e \<Rightarrow> (Inl e, w)
      | Inr violating \<Rightarrow>
     if violating \<noteq> [] then
       (Inl (InvalidUserInputsException
               (''Next inputs are immutable and cannot be changed: '' @
                join '', '' violating @ ''.'')), w)
     else
     (case render_template tu (tr_template (template a)) inps of
        Inl e \<Rightarrow> (Inl e, w)
      | Inr new_manifes \<Rightarrow>
     (case load_template tu new_manifes of
        Inl e \<Rightarrow> (Inl e, w)
      | Inr new_schema \<Rightarrow>
     (let absent_release_names =
            dict_keys (chart_mapping old_schema) - dict_keys (chart_mapping new_schema);
          dropped =
            (if absent_release_names \<noteq> {}
             then Some (absent_release_error iter absent_release_names) else None)
      in
     (case update_releases helm a dry_run (chart_mapping new_schema) [] w of
        (Inl e, w1) \<Rightarrow> (Inl e, w1)
      | (Inr update_results, w1) \<Rightarrow>
          (Inr update_results,
           if \<not> dry_run then w1\<lparr>db := db_save (db w1) (a\<lparr>manifest := new_manifes\<rparr>)\<rparr>
           else w1))))))))"

subsection \<open>Terminate\<close>

definition terminate ::
  "'v template_utils \<Rightarrow> ('v, 'r) helm_manager \<Rightarrow> 'v application \<Rightarrow> 'v world \<Rightarrow>
   (error + unit) \<times> 'v world" where
  "terminate tu helm a w =
     (case load_template tu (manifest a) of
        Inl e \<Rightarrow> (Inl e, w)
      | Inr manifest_schema \<Rightarrow>
          (let w1 = uninstall_charts helm (organization a) (context_name a) (namespace a)
                      (\<lambda>rel. TerminateRemoveFailed rel (org_id (organization a))
                               (tr_id (template a)))
                      (charts manifest_schema) w
           in (Inr (), w1\<lparr>db := db_delete (db w1) (app_id a)\<rparr>)))"

subsection \<open>A small installation to compute with\<close>

text \<open>
  Charts \<open>a\<close>, \<open>b\<close>, \<open>c\<close>; manifests named by the charts they declare; a renderer that
  returns the template text; Helm managers that fail on chosen releases.
\<close>

definition ex_org :: organization where
  "ex_org = \<lparr>org_id = 1\<rparr>"

definition ex_user :: user where
  "ex_user = \<lparr>user_id = ''u-1'', user_organization = ex_org\<rparr>"

definition ex_chart :: "string \<Rightarrow> string chart_schema" where
  "ex_chart n = \<lparr>ch_name = n, ch_chart = ''repo/'' @ n, ch_version = ''1.0'', ch_values = ''v''\<rparr>"

definition ex_schema ::
  "string input_schema list \<Rightarrow> string chart_schema list \<Rightarrow> string template_schema" where
  "ex_schema ins cs =
     \<lparr>schema_name = ''shop'', inputs = ins, inputs_mapping = map (\<lambda>i. (in_name i, i)) ins,
      charts = cs, chart_mapping = map (\<lambda>c. (ch_name c, c)) cs\<rparr>"

definition ex_inputs :: "string input_schema list" where
  "ex_inputs =
     [\<lparr>in_name = ''region'', in_default = Some ''us-east'', in_immutable = True\<rparr>,
      \<lparr>in_name = ''zone'', in_default = Some ''z1'', in_immutable = True\<rparr>,
      \<lparr>in_name = ''replicas'', in_default = None, in_immutable = False\<rparr>]"

definition ex_tu :: "string template_utils" where
  "ex_tu =
     \<lparr>validate_inputs = (\<lambda>t inps. None),
      render_template = (\<lambda>t inps. Inr t),
      load_template = (\<lambda>m.
        if m = ''abc'' then Inr (ex_schema [] [ex_chart ''a'', ex_chart ''b'', ex_chart ''c''])
        else if m = ''ab'' then Inr (ex_schema [] [ex_chart ''a'', ex_chart ''b''])
        else if m = ''bc'' then Inr (ex_schema [] [ex_chart ''b'', ex_chart ''c''])
        else if m = ''cfg'' then Inr (ex_schema ex_inputs [ex_chart ''a'', ex_chart ''b''])
        else Inl (TemplateException ''cannot parse''))\<rparr>"

text \<open>Fails to install \<open>c\<close> and to uninstall \<open>b\<close>.\<close>

definition ex_helm :: "(string, string) helm_manager" where
  "ex_helm tr c =
     (case c of
        InstallChart org ctx ns rel chart ver vals d \<Rightarrow>
          if rel = ''c'' then Inl ''install failed'' else Inr ''installed''
      | UpdateRelease org ctx ns rel chart vals d \<Rightarrow> Inr ''updated''
      | UninstallRelease org ctx ns rel d \<Rightarrow>
          if rel = ''b'' then Inl ''uninstall failed'' else Inr ''uninstalled'')"

text \<open>Fails to update \<open>b\<close>.\<close>

definition ex_helm_update :: "(string, string) helm_manager" where
  "ex_helm_update tr c =
     (case c of
        InstallChart org ctx ns rel chart ver vals d \<Rightarrow> Inr ''installed''
      | UpdateRelease org ctx ns rel chart vals d \<Rightarrow>
          if rel = ''b'' then Inl ''update failed'' else Inr ''updated''
      | UninstallRelease org ctx ns rel d \<Rightarrow> Inr ''uninstalled'')"

definition ex_helm_ok :: "(string, string) helm_manager" where
  "ex_helm_ok tr c = Inr ''done''"

definition ex_app :: "string \<Rightarrow> string \<Rightarrow> string dict \<Rightarrow> string application" where
  "ex_app m t ui =
     \<lparr>app_id = 5, app_name = ''shop'', description = [], manifest = m, status = Running,
      context_name = ''ctx'', namespace = ''ns'', user_inputs = ui,
      template = \<lparr>tr_id = 7, tr_template = t\<rparr>, creator_id = ''u-1'', organization = ex_org\<rparr>"

text \<open>Python's \<^verbatim>\<open>!=\<close> on two \<^verbatim>\<open>str\<close> values.\<close>

definition ex_ne :: "string \<Rightarrow> string \<Rightarrow> bool" where
  "ex_ne x y = (x \<noteq> y)"

text \<open>An iteration order for sets of the three release names.\<close>

definition ex_iter :: "string set \<Rightarrow> string list" where
  "ex_iter S = filter (\<lambda>n. n \<in> S) [''a'', ''b'', ''c'']"

definition ex_world :: "string world" where
  "ex_world = \<lparr>helm_calls = [], db = \<lparr>records = Map.empty, next_id = 1\<rparr>, logged = []\<rparr>"

definition ex_world_of :: "string application \<Rightarrow> string world" where
  "ex_world_of a =
     \<lparr>helm_calls = [], db = \<lparr>records = [app_id a \<mapsto> a], next_id = Suc (app_id a)\<rparr>, logged = []\<rparr>"

section \<open>Properties\<close>

subsection \<open>The loops\<close>

lemma uninstall_charts_calls:
  "helm_calls (uninstall_charts helm org ctx ns entry cs w) =
     helm_calls w @ map (\<lambda>c. UninstallRelease org ctx ns (ch_name c) None) cs"
  by (induction cs arbitrary: w)
     (auto simp: call_helm_def log_exception_def split: sum.splits)

lemma uninstall_charts_db: "db (uninstall_charts helm org ctx ns entry cs w) = db w"
  by (induction cs arbitrary: w)
     (auto simp: call_helm_def log_exception_def split: sum.splits)

lemma install_charts_fail:
  assumes "i < length cs"
    and "\<forall>j<i. \<exists>r. helm (helm_calls w @ map (install_call org ctx ns d) (take j cs))
                        (install_call org ctx ns d (cs ! j)) = Inr r"
    and "helm (helm_calls w @ map (install_call org ctx ns d) (take i cs))
              (install_call org ctx ns d (cs ! i)) = Inl msg"
  shows "\<exists>w1. install_charts helm org ctx ns d idx cs res w = (Inl (msg, idx + i, cs ! i), w1) \<and>
           helm_calls w1 = helm_calls w @ map (install_call org ctx ns d) (take (Suc i) cs) \<and>
           db w1 = db w \<and> logged w1 = logged w"
  using assms
proof (induction cs arbitrary: i idx res w)
  case Nil
  then show ?case by simp
next
  case (Cons c cs)
  show ?case
  proof (cases i)
    case 0
    with Cons.prems show ?thesis by (simp add: call_helm_def)
  next
    case (Suc i')
    from Cons.prems(2) Suc obtain r where r: "helm (helm_calls w) (install_call org ctx ns d c) = Inr r"
      by fastforce
    let ?w = "w\<lparr>helm_calls := helm_calls w @ [install_call org ctx ns d c]\<rparr>"
    have a: "i' < length cs" using Cons.prems(1) Suc by simp
    have b: "\<forall>j<i'. \<exists>r. helm (helm_calls ?w @ map (install_call org ctx ns d) (take j cs))
                        (install_call org ctx ns d (cs ! j)) = Inr r"
    proof (intro allI impI)
      fix j assume "j < i'"
      then have "Suc j < i" using Suc by simp
      from Cons.prems(2)[rule_format, OF this] show "\<exists>r. helm (helm_calls ?w @ map (install_call org ctx ns d) (take j cs))
                        (install_call org ctx ns d (cs ! j)) = Inr r" by simp
    qed
    have c: "helm (helm_calls ?w @ map (install_call org ctx ns d) (take i' cs))
              (install_call org ctx ns d (cs ! i')) = Inl msg"
      using Cons.prems(3) Suc by simp
    from Cons.IH[OF a b c, of "Suc idx" "dict_set res (ch_name c) r"]
    show ?thesis using r Suc by (simp add: call_helm_def)
  qed
qed


subsection \<open>Install: rollback after a failed install\<close>

text \<open>
  C1. Let the manifest rendered for a non-dry-run \<open>install\<close> declare n charts, and let the
  k-th install call (counted from 1) be the first that fails, with a chart-operation error;
  the k - 1 calls before it succeed. Then the calls issued are the k install calls followed
  by one uninstall call for each of the first k - 1 charts, in the reverse of the order of
  their install calls, and for no other chart. The Helm manager is arbitrary on the uninstall
  calls, so a failed clean-up call stops nothing. \<open>install\<close> raises the error of the failed
  install call, and the database is as it was: no application record is created.
\<close>

theorem install_rollback:
  assumes "validate_inputs tu (tr_template tmpl) inps = None"
    and "render_template tu (tr_template tmpl) inps = Inr rendered"
    and "load_template tu rendered = Inr sch"
    and "1 \<le> k" and "k \<le> length (charts sch)"
    and "\<forall>j<k - 1. \<exists>r. helm (helm_calls w @
              map (install_call (user_organization usr) ctx ns False) (take j (charts sch)))
            (install_call (user_organization usr) ctx ns False (charts sch ! j)) = Inr r"
    and "helm (helm_calls w @
              map (install_call (user_organization usr) ctx ns False) (take (k - 1) (charts sch)))
            (install_call (user_organization usr) ctx ns False (charts sch ! (k - 1))) = Inl msg"
  shows "fst (install tu helm ctx ns usr tmpl inps False w) = Inl (HelmException msg) \<and>
         helm_calls (snd (install tu helm ctx ns usr tmpl inps False w)) =
           helm_calls w @
           map (install_call (user_organization usr) ctx ns False) (take k (charts sch)) @
           map (\<lambda>c. UninstallRelease (user_organization usr) ctx ns (ch_name c) None)
             (rev (take (k - 1) (charts sch))) \<and>
         db (snd (install tu helm ctx ns usr tmpl inps False w)) = db w"
proof -
  have i: "k - 1 < length (charts sch)" using assms(4,5) by simp
  from install_charts_fail[OF i assms(6) assms(7), of 0 "[]"]
  obtain w1 where w1:
    "install_charts helm (user_organization usr) ctx ns False 0 (charts sch) [] w =
       (Inl (msg, k - 1, charts sch ! (k - 1)), w1)"
    "helm_calls w1 = helm_calls w @
       map (install_call (user_organization usr) ctx ns False) (take (Suc (k - 1)) (charts sch))"
    "db w1 = db w"
    by auto
  have k: "Suc (k - 1) = k" using assms(4) by simp
  show ?thesis
    using assms(1-3) w1 k
    by (simp add: install_def uninstall_charts_calls uninstall_charts_db log_exception_def)
qed

theorem install_rollback_witness:
  "fst (install ex_tu ex_helm ''ctx'' ''ns'' ex_user \<lparr>tr_id = 7, tr_template = ''abc''\<rparr> [] False
          ex_world) = Inl (HelmException ''install failed'') \<and>
   helm_calls (snd (install ex_tu ex_helm ''ctx'' ''ns'' ex_user
          \<lparr>tr_id = 7, tr_template = ''abc''\<rparr> [] False ex_world)) =
     [install_call ex_org ''ctx'' ''ns'' False (ex_chart ''a''),
      install_call ex_org ''ctx'' ''ns'' False (ex_chart ''b''),
      install_call ex_org ''ctx'' ''ns'' False (ex_chart ''c''),
      UninstallRelease ex_org ''ctx'' ''ns'' ''b'' None,
      UninstallRelease ex_org ''ctx'' ''ns'' ''a'' None] \<and>
   db (snd (install ex_tu ex_helm ''ctx'' ''ns'' ex_user \<lparr>tr_id = 7, tr_template = ''abc''\<rparr> []
          False ex_world)) = db ex_world"
proof -
  let ?sch = "ex_schema [] [ex_chart ''a'', ex_chart ''b'', ex_chart ''c'']"
  let ?t = "\<lparr>tr_id = 7, tr_template = ''abc''\<rparr>"
  have h1: "validate_inputs ex_tu (tr_template ?t) [] = None" by (simp add: ex_tu_def)
  have h2: "render_template ex_tu (tr_template ?t) [] = Inr ''abc''" by (simp add: ex_tu_def)
  have h3: "load_template ex_tu ''abc'' = Inr ?sch" by (simp add: ex_tu_def)
  have h4: "1 \<le> (3::nat)" by simp
  have h5: "3 \<le> length (charts ?sch)" by (simp add: ex_schema_def)
  have h6: "\<forall>j<3 - 1. \<exists>r. ex_helm (helm_calls ex_world @
              map (install_call (user_organization ex_user) ''ctx'' ''ns'' False) (take j (charts ?sch)))
            (install_call (user_organization ex_user) ''ctx'' ''ns'' False (charts ?sch ! j)) = Inr r"
    by (simp add: ex_helm_def install_call_def ex_schema_def ex_chart_def less_Suc_eq
          numeral_2_eq_2 numeral_3_eq_3 nth_Cons')
  have h7: "ex_helm (helm_calls ex_world @
              map (install_call (user_organization ex_user) ''ctx'' ''ns'' False)
                (take (3 - 1) (charts ?sch)))
            (install_call (user_organization ex_user) ''ctx'' ''ns'' False (charts ?sch ! (3 - 1)))
          = Inl ''install failed''"
    by (simp add: ex_helm_def install_call_def ex_schema_def ex_chart_def)
  from install_rollback[OF h1 h2 h3 h4 h5 h6 h7]
  show ?thesis
    by (simp add: ex_schema_def ex_chart_def ex_world_def ex_user_def install_call_def
          numeral_2_eq_2 numeral_3_eq_3)
qed

lemma install_charts_logged:
  "logged (snd (install_charts helm org ctx ns d idx cs res w)) = logged w"
  by (induction cs arbitrary: idx res w) (auto simp: call_helm_def split: sum.splits)

subsection \<open>Install: a failed dry run\<close>

text \<open>
  C3 (as the code has it). The clean-up of \<open>install\<close> stands under \<^verbatim>\<open>if not dry_run\<close>.
  When the k-th install call of a dry-run \<open>install\<close> is the first that fails, the calls
  issued are the k install calls (each with the dry-run flag) and nothing else: no uninstall
  call is made for the charts installed before, and nothing is logged. The error of the
  failed install call is raised, and the database is as it was.
\<close>

theorem install_dry_run_no_rollback:
  assumes "validate_inputs tu (tr_template tmpl) inps = None"
    and "render_template tu (tr_template tmpl) inps = Inr rendered"
    and "load_template tu rendered = Inr sch"
    and "1 \<le> k" and "k \<le> length (charts sch)"
    and "\<forall>j<k - 1. \<exists>r. helm (helm_calls w @
              map (install_call (user_organization usr) ctx ns True) (take j (charts sch)))
            (install_call (user_organization usr) ctx ns True (charts sch ! j)) = Inr r"
    and "helm (helm_calls w @
              map (install_call (user_organization usr) ctx ns True) (take (k - 1) (charts sch)))
            (install_call (user_organization usr) ctx ns True (charts sch ! (k - 1))) = Inl msg"
  shows "fst (install tu helm ctx ns usr tmpl inps True w) = Inl (HelmException msg) \<and>
         helm_calls (snd (install tu helm ctx ns usr tmpl inps True w)) =
           helm_calls w @
           map (install_call (user_organization usr) ctx ns True) (take k (charts sch)) \<and>
         db (snd (install tu helm ctx ns usr tmpl inps True w)) = db w \<and>
         logged (snd (install tu helm ctx ns usr tmpl inps True w)) = logged w"
proof -
  have i: "k - 1 < length (charts sch)" using assms(4,5) by simp
  from install_charts_fail[OF i assms(6) assms(7), of 0 "[]"]
  obtain w1 where w1:
    "install_charts helm (user_organization usr) ctx ns True 0 (charts sch) [] w =
       (Inl (msg, k - 1, charts sch ! (k - 1)), w1)"
    "helm_calls w1 = helm_calls w @
       map (install_call (user_organization usr) ctx ns True) (take (Suc (k - 1)) (charts sch))"
    "db w1 = db w" "logged w1 = logged w"
    by auto
  have k: "Suc (k - 1) = k" using assms(4) by simp
  show ?thesis
    using assms(1-3) w1 k by (simp add: install_def)
qed

theorem install_dry_run_no_rollback_witness:
  "fst (install ex_tu ex_helm ''ctx'' ''ns'' ex_user \<lparr>tr_id = 7, tr_template = ''abc''\<rparr> [] True
          ex_world) = Inl (HelmException ''install failed'') \<and>
   helm_calls (snd (install ex_tu ex_helm ''ctx'' ''ns'' ex_user
          \<lparr>tr_id = 7, tr_template = ''abc''\<rparr> [] True ex_world)) =
     [install_call ex_org ''ctx'' ''ns'' True (ex_chart ''a''),
      install_call ex_org ''ctx'' ''ns'' True (ex_chart ''b''),
      install_call ex_org ''ctx'' ''ns'' True (ex_chart ''c'')] \<and>
   db (snd (install ex_tu ex_helm ''ctx'' ''ns'' ex_user \<lparr>tr_id = 7, tr_template = ''abc''\<rparr> []
          True ex_world)) = db ex_world \<and>
   logged (snd (install ex_tu ex_helm ''ctx'' ''ns'' ex_user \<lparr>tr_id = 7, tr_template = ''abc''\<rparr> []
          True ex_world)) = logged ex_world"
proof -
  let ?sch = "ex_schema [] [ex_chart ''a'', ex_chart ''b'', ex_chart ''c'']"
  let ?t = "\<lparr>tr_id = 7, tr_template = ''abc''\<rparr>"
  have h1: "validate_inputs ex_tu (tr_template ?t) [] = None" by (simp add: ex_tu_def)
  have h2: "render_template ex_tu (tr_template ?t) [] = Inr ''abc''" by (simp add: ex_tu_def)
  have h3: "load_template ex_tu ''abc'' = Inr ?sch" by (simp add: ex_tu_def)
  have h4: "1 \<le> (3::nat)" by simp
  have h5: "3 \<le> length (charts ?sch)" by (simp add: ex_schema_def)
  have h6: "\<forall>j<3 - 1. \<exists>r. ex_helm (helm_calls ex_world @
              map (install_call (user_organization ex_user) ''ctx'' ''ns'' True) (take j (charts ?sch)))
            (install_call (user_organization ex_user) ''ctx'' ''ns'' True (charts ?sch ! j)) = Inr r"
    by (simp add: ex_helm_def install_call_def ex_schema_def ex_chart_def less_Suc_eq
          numeral_2_eq_2 numeral_3_eq_3 nth_Cons')
  have h7: "ex_helm (helm_calls ex_world @
              map (install_call (user_organization ex_user) ''ctx'' ''ns'' True)
                (take (3 - 1) (charts ?sch)))
            (install_call (user_organization ex_user) ''ctx'' ''ns'' True (charts ?sch ! (3 - 1)))
          = Inl ''install failed''"
    by (simp add: ex_helm_def install_call_def ex_schema_def ex_chart_def)
  from install_dry_run_no_rollback[OF h1 h2 h3 h4 h5 h6 h7]
  show ?thesis
    by (simp add: ex_schema_def ex_chart_def ex_world_def ex_user_def install_call_def
          numeral_2_eq_2 numeral_3_eq_3)
qed

text \<open>
  The claim as written asks for compensating uninstall calls after a failed dry run. With
  charts \<open>a\<close>, \<open>b\<close>, \<open>c\<close> and a Helm manager that fails to install \<open>c\<close>, the dry run
  issues the three install calls and no uninstall call for \<open>a\<close> or \<open>b\<close>.
\<close>

theorem install_dry_run_rollback_counterexample:
  "fst (install ex_tu ex_helm ''ctx'' ''ns'' ex_user \<lparr>tr_id = 7, tr_template = ''abc''\<rparr> [] True
          ex_world) = Inl (HelmException ''install failed'') \<and>
   helm_calls (snd (install ex_tu ex_helm ''ctx'' ''ns'' ex_user
          \<lparr>tr_id = 7, tr_template = ''abc''\<rparr> [] True ex_world)) =
     [InstallChart ex_org ''ctx'' ''ns'' ''a'' ''repo/a'' ''1.0'' ''v'' True,
      InstallChart ex_org ''ctx'' ''ns'' ''b'' ''repo/b'' ''1.0'' ''v'' True,
      InstallChart ex_org ''ctx'' ''ns'' ''c'' ''repo/c'' ''1.0'' ''v'' True]"
  by (simp add: install_def ex_tu_def ex_schema_def ex_chart_def ex_helm_def ex_user_def
        ex_world_def install_call_def call_helm_def)

lemma uninstall_charts_logged:
  "logged (uninstall_charts helm org ctx ns entry cs w) =
     logged w @
     map (\<lambda>i. entry (ch_name (cs ! i)))
       (filter (\<lambda>i. isl (helm (helm_calls w @
                   map (\<lambda>c. UninstallRelease org ctx ns (ch_name c) None) (take i cs))
                 (UninstallRelease org ctx ns (ch_name (cs ! i)) None)))
          [0..<length cs])"
proof (induction cs arbitrary: w)
  case Nil
  then show ?case by simp
next
  case (Cons c cs)
  have upt: "[0..<length (c # cs)] = 0 # map Suc [0..<length cs]"
    by (simp add: upt_conv_Cons map_Suc_upt del: upt_Suc)
  show ?case
    unfolding upt
    by (cases "helm (helm_calls w) (UninstallRelease org ctx ns (ch_name c) None)")
       (simp_all add: Cons.IH call_helm_def log_exception_def filter_map o_def)
qed

subsection \<open>Terminate: a best-effort pass\<close>

text \<open>
  C9. When the stored manifest of the application parses to n charts, \<open>terminate\<close> issues
  exactly n uninstall calls, one per declared chart and in manifest order, whatever the Helm
  manager answers: a failed call is logged (one entry per failure, in order) and the loop
  goes on. \<open>terminate\<close> then returns normally with the record of the application deleted
  from the database.
\<close>

theorem terminate_best_effort:
  assumes "load_template tu (manifest a) = Inr sch"
  shows "fst (terminate tu helm a w) = Inr () \<and>
         helm_calls (snd (terminate tu helm a w)) =
           helm_calls w @
           map (\<lambda>c. UninstallRelease (organization a) (context_name a) (namespace a)
                      (ch_name c) None) (charts sch) \<and>
         logged (snd (terminate tu helm a w)) =
           logged w @
           map (\<lambda>i. TerminateRemoveFailed (ch_name (charts sch ! i)) (org_id (organization a))
                      (tr_id (template a)))
             (filter (\<lambda>i. isl (helm (helm_calls w @
                         map (\<lambda>c. UninstallRelease (organization a) (context_name a)
                                    (namespace a) (ch_name c) None) (take i (charts sch)))
                       (UninstallRelease (organization a) (context_name a) (namespace a)
                          (ch_name (charts sch ! i)) None)))
                [0..<length (charts sch)]) \<and>
         db (snd (terminate tu helm a w)) = db_delete (db w) (app_id a) \<and>
         records (db (snd (terminate tu helm a w))) (app_id a) = None"
  using assms
  by (simp add: terminate_def Let_def uninstall_charts_calls uninstall_charts_db
        uninstall_charts_logged db_delete_def)

theorem terminate_best_effort_witness:
  "fst (terminate ex_tu ex_helm (ex_app ''abc'' ''abc'' []) (ex_world_of (ex_app ''abc'' ''abc'' [])))
     = Inr () \<and>
   helm_calls (snd (terminate ex_tu ex_helm (ex_app ''abc'' ''abc'' [])
                      (ex_world_of (ex_app ''abc'' ''abc'' [])))) =
     [UninstallRelease ex_org ''ctx'' ''ns'' ''a'' None,
      UninstallRelease ex_org ''ctx'' ''ns'' ''b'' None,
      UninstallRelease ex_org ''ctx'' ''ns'' ''c'' None] \<and>
   logged (snd (terminate ex_tu ex_helm (ex_app ''abc'' ''abc'' [])
                  (ex_world_of (ex_app ''abc'' ''abc'' [])))) =
     [TerminateRemoveFailed ''b'' 1 7] \<and>
   records (db (snd (terminate ex_tu ex_helm (ex_app ''abc'' ''abc'' [])
                       (ex_world_of (ex_app ''abc'' ''abc'' []))))) 5 = None"
proof -
  let ?a = "ex_app ''abc'' ''abc'' []"
  have h: "load_template ex_tu (manifest ?a) =
             Inr (ex_schema [] [ex_chart ''a'', ex_chart ''b'', ex_chart ''c''])"
    by (simp add: ex_tu_def ex_app_def)
  have u: "[0..<3] = [0, 1, 2]" by (simp add: upt_conv_Cons del: upt_Suc)
  from terminate_best_effort[OF h, of ex_helm "ex_world_of ?a"]
  show ?thesis
    by (simp add: ex_schema_def ex_chart_def ex_app_def ex_world_of_def ex_helm_def ex_org_def
          db_delete_def u)
qed

subsection \<open>Upgrade: the diff set\<close>

text \<open>
  C4. For the old and the new chart mapping, \<open>upgrade\<close> installs the keys of the new
  mapping that are not keys of the old one, removes the keys of the old mapping that are not
  keys of the new one, and updates the common keys. The three sets are pairwise disjoint and
  their union is the union of the two key sets.
\<close>

theorem diff_set_partition:
  "charts_to_install old_schema new_schema =
     dict_keys (chart_mapping new_schema) - dict_keys (chart_mapping old_schema) \<and>
   releases_to_remove old_schema new_schema =
     dict_keys (chart_mapping old_schema) - dict_keys (chart_mapping new_schema) \<and>
   releases_to_update old_schema new_schema =
     dict_keys (chart_mapping old_schema) \<inter> dict_keys (chart_mapping new_schema) \<and>
   charts_to_install old_schema new_schema \<inter> releases_to_remove old_schema new_schema = {} \<and>
   charts_to_install old_schema new_schema \<inter> releases_to_update old_schema new_schema = {} \<and>
   releases_to_remove old_schema new_schema \<inter> releases_to_update old_schema new_schema = {} \<and>
   charts_to_install old_schema new_schema \<union> releases_to_remove old_schema new_schema \<union>
     releases_to_update old_schema new_schema =
     dict_keys (chart_mapping old_schema) \<union> dict_keys (chart_mapping new_schema)"
  unfolding charts_to_install_def releases_to_remove_def releases_to_update_def by blast

subsection \<open>Upgrade: the merged inputs\<close>

lemma map_of_dict_set: "map_of (dict_set d k v) = (map_of d)(k \<mapsto> v)"
  by (induction d) auto

lemma map_of_dict_merge:
  "distinct (map fst b) \<Longrightarrow> map_of (dict_merge a b) = map_of a ++ map_of b"
  unfolding dict_merge_def
proof (induction b arbitrary: a)
  case Nil
  then show ?case by simp
next
  case (Cons p b)
  obtain k v where p: "p = (k, v)" by (cases p)
  from Cons.prems p have k: "k \<notin> fst ` set b" and d: "distinct (map fst b)" by auto
  from k have n: "map_of b k = None" by (simp add: map_of_eq_None_iff)
  have "map_of (fold (\<lambda>(k, v) d. dict_set d k v) (p # b) a) = map_of (dict_set a k v) ++ map_of b"
    using Cons.IH[OF d, of "dict_set a k v"] p by simp
  also have "\<dots> = map_of a ++ map_of (p # b)"
    using n p by (auto simp: map_of_dict_set map_add_def fun_eq_iff split: option.splits)
  finally show ?case .
qed

lemma dict_keys_dom: "dict_keys d = dom (map_of d)"
  by (simp add: dict_keys_def dom_map_of_conv_image_fst)

text \<open>
  C5. \<open>upgrade\<close> renders the new template with \<open>merged_inputs\<close>, the defaults of the new
  template overridden by the stored user inputs. For a name that is a key of both, the
  merged value is the stored user input; for a name that is a key of the defaults only, the
  merged value is the default. (The stored user inputs are a dict: no key occurs twice.)
\<close>

theorem upgrade_merge_precedence:
  assumes "distinct (map fst (user_inputs a))"
  shows "(k \<in> dict_keys (input_defaults (inputs new_template_schema)) \<and>
          k \<in> dict_keys (user_inputs a) \<longrightarrow>
            (\<exists>v. dict_get (user_inputs a) k = Inr v \<and>
                 dict_get (merged_inputs new_template_schema a) k = Inr v)) \<and>
         (k \<in> dict_keys (input_defaults (inputs new_template_schema)) \<and>
          k \<notin> dict_keys (user_inputs a) \<longrightarrow>
            (\<exists>v. dict_get (input_defaults (inputs new_template_schema)) k = Inr v \<and>
                 dict_get (merged_inputs new_template_schema a) k = Inr v))"
  using assms
  by (auto simp: merged_inputs_def dict_get_def dict_keys_dom map_of_dict_merge map_add_def
           split: option.splits)

theorem upgrade_merge_precedence_witness:
  "dict_get (merged_inputs (ex_schema ex_inputs [])
               (ex_app ''cfg'' ''cfg'' [(''region'', ''eu-west''), (''replicas'', ''2'')]))
     ''region'' = Inr ''eu-west'' \<and>
   dict_get (merged_inputs (ex_schema ex_inputs [])
               (ex_app ''cfg'' ''cfg'' [(''region'', ''eu-west''), (''replicas'', ''2'')]))
     ''zone'' = Inr ''z1''"
proof -
  let ?a = "ex_app ''cfg'' ''cfg'' [(''region'', ''eu-west''), (''replicas'', ''2'')]"
  let ?s = "ex_schema ex_inputs []"
  have d: "distinct (map fst (user_inputs ?a))" by (simp add: ex_app_def)
  have kd: "dict_keys (input_defaults (inputs ?s)) = {''region'', ''zone''}"
    by (auto simp: ex_schema_def ex_inputs_def input_defaults_def dict_keys_def)
  have ku: "dict_keys (user_inputs ?a) = {''region'', ''replicas''}"
    by (auto simp: ex_app_def dict_keys_def)
  have gu: "dict_get (user_inputs ?a) ''region'' = Inr ''eu-west''"
    by (simp add: ex_app_def dict_get_def)
  have gd: "dict_get (input_defaults (inputs ?s)) ''zone'' = Inr ''z1''"
    by (simp add: ex_schema_def ex_inputs_def input_defaults_def dict_get_def)
  from upgrade_merge_precedence[OF d, of "''region''" ?s]
       upgrade_merge_precedence[OF d, of "''zone''" ?s]
  show ?thesis
    by (simp add: kd ku gu gd)
qed

subsection \<open>The loops of upgrade\<close>

lemma dict_get_Inr: "dict_get d k = Inr v \<Longrightarrow> the (map_of d k) = v"
  by (auto simp: dict_get_def split: option.splits)

lemma dict_get_keys: "k \<in> dict_keys d \<Longrightarrow> dict_get d k = Inr (the (map_of d k))"
  by (auto simp: dict_get_def dict_keys_dom split: option.splits)

lemma upgrade_install_ok:
  "upgrade_install helm a t d m ns inst res w = (Inr r, w') \<Longrightarrow>
     helm_calls w' = helm_calls w @
       map (\<lambda>n. install_call (organization a) (context_name a) (namespace a) d
                  (the (map_of m n))) ns \<and>
     db w' = db w \<and> logged w' = logged w"
proof (induction ns arbitrary: inst res w)
  case Nil
  then show ?case by simp
next
  case (Cons n ns)
  from Cons.prems obtain c where c: "dict_get m n = Inr c"
    by (auto split: sum.splits)
  from Cons.prems c obtain x where
    x: "helm (helm_calls w) (install_call (organization a) (context_name a) (namespace a) d c) = Inr x"
    by (auto simp: call_helm_def split: sum.splits)
  from Cons.prems c x have
    "upgrade_install helm a t d m ns (inst @ [c]) (dict_set res (ch_name c) x)
       (w\<lparr>helm_calls := helm_calls w @
            [install_call (organization a) (context_name a) (namespace a) d c]\<rparr>) = (Inr r, w')"
    by (simp add: call_helm_def)
  from Cons.IH[OF this] show ?case using dict_get_Inr[OF c] by simp
qed

lemma upgrade_install_db:
  "db (snd (upgrade_install helm a t d m ns inst res w)) = db w"
  by (induction ns arbitrary: inst res w)
     (auto simp: call_helm_def uninstall_charts_db log_exception_def split: sum.splits)

lemma upgrade_update_ok:
  "upgrade_update helm a d m ns res w = (Inr r, w') \<Longrightarrow>
     helm_calls w' = helm_calls w @
       map (\<lambda>n. update_call (organization a) (context_name a) (namespace a) d n
                  (the (map_of m n))) ns \<and>
     db w' = db w \<and> logged w' = logged w"
proof (induction ns arbitrary: res w)
  case Nil
  then show ?case by simp
next
  case (Cons n ns)
  from Cons.prems obtain c where c: "dict_get m n = Inr c"
    by (auto split: sum.splits)
  from Cons.prems c obtain x where
    x: "helm (helm_calls w)
          (update_call (organization a) (context_name a) (namespace a) d n c) = Inr x"
    by (auto simp: call_helm_def split: sum.splits)
  from Cons.prems c x have
    "upgrade_update helm a d m ns (dict_set res n x)
       (w\<lparr>helm_calls := helm_calls w @
            [update_call (organization a) (context_name a) (namespace a) d n c]\<rparr>) = (Inr r, w')"
    by (simp add: call_helm_def)
  from Cons.IH[OF this] show ?case using dict_get_Inr[OF c] by simp
qed

lemma upgrade_update_db:
  "db (snd (upgrade_update helm a d m ns res w)) = db w"
  by (induction ns arbitrary: res w) (auto simp: call_helm_def split: sum.splits)

lemma upgrade_remove_ok:
  "upgrade_remove helm a d m ns w = (Inr r, w') \<Longrightarrow>
     helm_calls w' = helm_calls w @
       map (\<lambda>n. UninstallRelease (organization a) (context_name a) (namespace a)
                  (ch_name (the (map_of m n))) (Some d)) ns \<and>
     db w' = db w"
proof (induction ns arbitrary: w)
  case Nil
  then show ?case by simp
next
  case (Cons n ns)
  from Cons.prems obtain c where c: "dict_get m n = Inr c"
    by (auto split: sum.splits)
  let ?w = "w\<lparr>helm_calls := helm_calls w @
            [UninstallRelease (organization a) (context_name a) (namespace a) (ch_name c)
               (Some d)]\<rparr>"
  from Cons.prems c obtain w1 where
    w1: "upgrade_remove helm a d m ns w1 = (Inr r, w')" "helm_calls w1 = helm_calls ?w"
        "db w1 = db w"
    by (auto simp: call_helm_def log_exception_def split: sum.splits if_splits)
  from Cons.IH[OF w1(1)] w1(2,3) show ?case using dict_get_Inr[OF c] by simp
qed

lemma upgrade_update_fail:
  assumes "j < length ns"
    and "set ns \<subseteq> dict_keys m"
    and "\<forall>i<j. \<exists>r. helm (helm_calls w @
             map (\<lambda>n. update_call (organization a) (context_name a) (namespace a) d n
                        (the (map_of m n))) (take i ns))
           (update_call (organization a) (context_name a) (namespace a) d (ns ! i)
              (the (map_of m (ns ! i)))) = Inr r"
    and "helm (helm_calls w @
             map (\<lambda>n. update_call (organization a) (context_name a) (namespace a) d n
                        (the (map_of m n))) (take j ns))
           (update_call (organization a) (context_name a) (namespace a) d (ns ! j)
              (the (map_of m (ns ! j)))) = Inl msg"
  shows "\<exists>w'. upgrade_update helm a d m ns res w = (Inl (HelmException msg), w') \<and>
           helm_calls w' = helm_calls w @
             map (\<lambda>n. update_call (organization a) (context_name a) (namespace a) d n
                        (the (map_of m n))) (take (Suc j) ns) \<and>
           db w' = db w \<and> logged w' = logged w"
  using assms
proof (induction ns arbitrary: j res w)
  case Nil
  then show ?case by simp
next
  case (Cons n ns)
  let ?U = "\<lambda>n. update_call (organization a) (context_name a) (namespace a) d n
                        (the (map_of m n))"
  from Cons.prems(2) have g: "dict_get m n = Inr (the (map_of m n))"
    by (simp add: dict_get_keys)
  show ?case
  proof (cases j)
    case 0
    with Cons.prems g show ?thesis by (simp add: call_helm_def)
  next
    case (Suc j')
    from Cons.prems(3) Suc obtain r where r: "helm (helm_calls w) (?U n) = Inr r"
      by fastforce
    let ?w = "w\<lparr>helm_calls := helm_calls w @ [?U n]\<rparr>"
    have a: "j' < length ns" using Cons.prems(1) Suc by simp
    have s: "set ns \<subseteq> dict_keys m" using Cons.prems(2) by simp
    have b: "\<forall>i<j'. \<exists>r. helm (helm_calls ?w @ map ?U (take i ns)) (?U (ns ! i)) = Inr r"
    proof (intro allI impI)
      fix i assume "i < j'"
      then have "Suc i < j" using Suc by simp
      from Cons.prems(3)[rule_format, OF this]
      show "\<exists>r. helm (helm_calls ?w @ map ?U (take i ns)) (?U (ns ! i)) = Inr r" by simp
    qed
    have c: "helm (helm_calls ?w @ map ?U (take j' ns)) (?U (ns ! j')) = Inl msg"
      using Cons.prems(4) Suc by simp
    from Cons.IH[OF a s b c, of "dict_set res n r"]
    show ?thesis using r Suc g by (simp add: call_helm_def)
  qed
qed

subsection \<open>Upgrade: a failed update\<close>

text \<open>
  C2 (as the code has it). The update loop of \<open>upgrade\<close> has no handler. Let the install
  phase of an \<open>upgrade\<close> complete, and let the update call for the j-th release to update
  (counted from 0) be the first update call that fails. Then \<open>upgrade\<close> raises the error of
  that call to its caller. The calls issued are the install calls and the update calls up to
  the failed one: no uninstall call is made, so nothing is rolled back and nothing is
  removed, and no later release is updated. No result map is returned, nothing is logged by
  the update loop, and the database is as it was.
\<close>

theorem upgrade_update_failure_raises:
  assumes "load_template tu (tr_template tmpl) = Inr new_template_schema"
    and "render_template tu (tr_template tmpl) (merged_inputs new_template_schema a) =
           Inr rendered"
    and "load_template tu rendered = Inr new_schema"
    and "load_template tu (manifest a) = Inr old_schema"
    and "upgrade_install helm a tmpl dry_run (chart_mapping new_schema)
           (iter (charts_to_install old_schema new_schema)) [] [] w = (Inr install_results, w1)"
    and "set (iter (releases_to_update old_schema new_schema)) \<subseteq>
           releases_to_update old_schema new_schema"
    and "j < length (iter (releases_to_update old_schema new_schema))"
    and "\<forall>i<j. \<exists>r. helm (helm_calls w1 @
             map (\<lambda>n. update_call (organization a) (context_name a) (namespace a) dry_run n
                        (the (map_of (chart_mapping new_schema) n)))
               (take i (iter (releases_to_update old_schema new_schema))))
           (update_call (organization a) (context_name a) (namespace a) dry_run
              (iter (releases_to_update old_schema new_schema) ! i)
              (the (map_of (chart_mapping new_schema)
                      (iter (releases_to_update old_schema new_schema) ! i)))) = Inr r"
    and "helm (helm_calls w1 @
             map (\<lambda>n. update_call (organization a) (context_name a) (namespace a) dry_run n
                        (the (map_of (chart_mapping new_schema) n)))
               (take j (iter (releases_to_update old_schema new_schema))))
           (update_call (organization a) (context_name a) (namespace a) dry_run
              (iter (releases_to_update old_schema new_schema) ! j)
              (the (map_of (chart_mapping new_schema)
                      (iter (releases_to_update old_schema new_schema) ! j)))) = Inl msg"
  shows "fst (upgrade tu helm iter a tmpl dry_run w) = Inl (HelmException msg) \<and>
         helm_calls (snd (upgrade tu helm iter a tmpl dry_run w)) =
           helm_calls w @
           map (\<lambda>n. install_call (organization a) (context_name a) (namespace a) dry_run
                      (the (map_of (chart_mapping new_schema) n)))
             (iter (charts_to_install old_schema new_schema)) @
           map (\<lambda>n. update_call (organization a) (context_name a) (namespace a) dry_run n
                      (the (map_of (chart_mapping new_schema) n)))
             (take (Suc j) (iter (releases_to_update old_schema new_schema))) \<and>
         db (snd (upgrade tu helm iter a tmpl dry_run w)) = db w \<and>
         logged (snd (upgrade tu helm iter a tmpl dry_run w)) = logged w"
proof -
  have keys: "set (iter (releases_to_update old_schema new_schema)) \<subseteq>
                dict_keys (chart_mapping new_schema)"
    using assms(6) by (auto simp: releases_to_update_def)
  from upgrade_update_fail[OF assms(7) keys assms(8) assms(9), of "[]"]
  obtain w2 where w2:
    "upgrade_update helm a dry_run (chart_mapping new_schema)
       (iter (releases_to_update old_schema new_schema)) [] w1 = (Inl (HelmException msg), w2)"
    "helm_calls w2 = helm_calls w1 @
       map (\<lambda>n. update_call (organization a) (context_name a) (namespace a) dry_run n
                  (the (map_of (chart_mapping new_schema) n)))
         (take (Suc j) (iter (releases_to_update old_schema new_schema)))"
    "db w2 = db w1" "logged w2 = logged w1"
    by blast
  from upgrade_install_ok[OF assms(5)] have w1:
    "helm_calls w1 = helm_calls w @
       map (\<lambda>n. install_call (organization a) (context_name a) (namespace a) dry_run
                  (the (map_of (chart_mapping new_schema) n)))
         (iter (charts_to_install old_schema new_schema))"
    "db w1 = db w" "logged w1 = logged w"
    by simp_all
  have "upgrade tu helm iter a tmpl dry_run w = (Inl (HelmException msg), w2)"
    using assms(1-5) w2(1) by (simp add: upgrade_def)
  then show ?thesis using w1 w2(2-4) by simp
qed


theorem upgrade_update_failure_raises_witness:
  "fst (upgrade ex_tu ex_helm_update ex_iter (ex_app ''ab'' ''ab'' [])
          \<lparr>tr_id = 8, tr_template = ''bc''\<rparr> False (ex_world_of (ex_app ''ab'' ''ab'' []))) =
     Inl (HelmException ''update failed'') \<and>
   helm_calls (snd (upgrade ex_tu ex_helm_update ex_iter (ex_app ''ab'' ''ab'' [])
          \<lparr>tr_id = 8, tr_template = ''bc''\<rparr> False (ex_world_of (ex_app ''ab'' ''ab'' [])))) =
     [install_call ex_org ''ctx'' ''ns'' False (ex_chart ''c''),
      update_call ex_org ''ctx'' ''ns'' False ''b'' (ex_chart ''b'')] \<and>
   db (snd (upgrade ex_tu ex_helm_update ex_iter (ex_app ''ab'' ''ab'' [])
          \<lparr>tr_id = 8, tr_template = ''bc''\<rparr> False (ex_world_of (ex_app ''ab'' ''ab'' [])))) =
     db (ex_world_of (ex_app ''ab'' ''ab'' []))"
proof -
  let ?a = "ex_app ''ab'' ''ab'' []"
  let ?t = "\<lparr>tr_id = 8, tr_template = ''bc''\<rparr>"
  let ?new = "ex_schema [] [ex_chart ''b'', ex_chart ''c'']"
  let ?old = "ex_schema [] [ex_chart ''a'', ex_chart ''b'']"
  let ?w = "ex_world_of ?a"
  let ?w1 = "?w\<lparr>helm_calls := [install_call ex_org ''ctx'' ''ns'' False (ex_chart ''c'')]\<rparr>"
  have ti: "ex_iter (charts_to_install ?old ?new) = [''c'']"
    by (simp add: ex_iter_def charts_to_install_def dict_keys_def ex_schema_def ex_chart_def)
  have tu: "ex_iter (releases_to_update ?old ?new) = [''b'']"
    by (simp add: ex_iter_def releases_to_update_def dict_keys_def ex_schema_def ex_chart_def)
  have ru: "releases_to_update ?old ?new = {''b''}"
    by (auto simp: releases_to_update_def dict_keys_def ex_schema_def ex_chart_def)
  have h1: "load_template ex_tu (tr_template ?t) = Inr ?new" by (simp add: ex_tu_def)
  have h2: "render_template ex_tu (tr_template ?t) (merged_inputs ?new ?a) = Inr ''bc''"
    by (simp add: ex_tu_def)
  have h3: "load_template ex_tu ''bc'' = Inr ?new" by (simp add: ex_tu_def)
  have h4: "load_template ex_tu (manifest ?a) = Inr ?old" by (simp add: ex_tu_def ex_app_def)
  have h5: "upgrade_install ex_helm_update ?a ?t False (chart_mapping ?new)
              (ex_iter (charts_to_install ?old ?new)) [] [] ?w = (Inr [(''c'', ''installed'')], ?w1)"
    unfolding ti
    by (simp add: ex_schema_def ex_chart_def dict_get_def call_helm_def install_call_def
          ex_helm_update_def ex_app_def ex_world_of_def)
  have h6: "set (ex_iter (releases_to_update ?old ?new)) \<subseteq> releases_to_update ?old ?new"
    by (simp add: ex_iter_def)
  have h7: "0 < length (ex_iter (releases_to_update ?old ?new))" unfolding tu by simp
  have h8: "\<forall>i<0. \<exists>r. ex_helm_update (helm_calls ?w1 @
             map (\<lambda>n. update_call (organization ?a) (context_name ?a) (namespace ?a) False n
                        (the (map_of (chart_mapping ?new) n)))
               (take i (ex_iter (releases_to_update ?old ?new))))
           (update_call (organization ?a) (context_name ?a) (namespace ?a) False
              (ex_iter (releases_to_update ?old ?new) ! i)
              (the (map_of (chart_mapping ?new)
                      (ex_iter (releases_to_update ?old ?new) ! i)))) = Inr r"
    by simp
  have h9: "ex_helm_update (helm_calls ?w1 @
             map (\<lambda>n. update_call (organization ?a) (context_name ?a) (namespace ?a) False n
                        (the (map_of (chart_mapping ?new) n)))
               (take 0 (ex_iter (releases_to_update ?old ?new))))
           (update_call (organization ?a) (context_name ?a) (namespace ?a) False
              (ex_iter (releases_to_update ?old ?new) ! 0)
              (the (map_of (chart_mapping ?new)
                      (ex_iter (releases_to_update ?old ?new) ! 0)))) = Inl ''update failed''"
    unfolding tu by (simp add: ex_helm_update_def update_call_def)
  from upgrade_update_failure_raises[OF h1 h2 h3 h4 h5 h6 h7 h8 h9]
  show ?thesis
    unfolding ti tu
    by (simp add: ex_schema_def ex_chart_def ex_app_def ex_world_of_def)
qed

text \<open>
  The claim as written has a failed update absorbed. With the manifest of charts \<open>a\<close>, \<open>b\<close>
  upgraded to a template of charts \<open>b\<close>, \<open>c\<close> and a Helm manager that fails to update
  \<open>b\<close>, \<open>upgrade\<close> raises the error of the update call: it returns no result map, never
  uninstalls \<open>a\<close>, and saves nothing.
\<close>

theorem upgrade_update_failure_counterexample:
  "upgrade ex_tu ex_helm_update ex_iter (ex_app ''ab'' ''ab'' [])
     \<lparr>tr_id = 8, tr_template = ''bc''\<rparr> False (ex_world_of (ex_app ''ab'' ''ab'' [])) =
   (Inl (HelmException ''update failed''),
    (ex_world_of (ex_app ''ab'' ''ab'' []))
      \<lparr>helm_calls :=
         [InstallChart ex_org ''ctx'' ''ns'' ''c'' ''repo/c'' ''1.0'' ''v'' False,
          UpdateRelease ex_org ''ctx'' ''ns'' ''b'' ''repo/b'' ''v'' False]\<rparr>)"
  by (simp add: upgrade_def ex_tu_def ex_app_def ex_iter_def charts_to_install_def
        releases_to_update_def dict_keys_def ex_schema_def ex_chart_def dict_get_def
        call_helm_def install_call_def update_call_def ex_helm_update_def ex_world_of_def)

subsection \<open>The loops of the update of user inputs\<close>

lemma violating_inputs_filter:
  "set names \<subseteq> dict_keys inps \<Longrightarrow> set names \<subseteq> dict_keys stored \<Longrightarrow>
     violating_inputs py_ne inps stored names acc =
       Inr (acc @ filter (\<lambda>n. py_ne (the (map_of inps n)) (the (map_of stored n))) names)"
proof (induction names arbitrary: acc)
  case Nil
  then show ?case by simp
next
  case (Cons n names)
  from Cons.prems obtain x y where x: "map_of inps n = Some x" and y: "map_of stored n = Some y"
    by (auto simp: dict_keys_dom)
  from Cons.prems have "set names \<subseteq> dict_keys inps" "set names \<subseteq> dict_keys stored"
    by simp_all
  from Cons.IH[OF this] show ?case using x y by (simp add: dict_get_def)
qed

lemma update_releases_ok:
  "update_releases helm a d items res w = (Inr r, w') \<Longrightarrow>
     helm_calls w' = helm_calls w @
       map (\<lambda>(n, c). update_call (organization a) (context_name a) (namespace a) d n c) items \<and>
     db w' = db w \<and> logged w' = logged w"
proof (induction items arbitrary: res w)
  case Nil
  then show ?case by simp
next
  case (Cons p items)
  obtain n c where p: "p = (n, c)" by (cases p)
  from Cons.prems p obtain x where
    x: "helm (helm_calls w)
          (update_call (organization a) (context_name a) (namespace a) d n c) = Inr x"
    by (auto simp: call_helm_def split: sum.splits)
  from Cons.prems p x have
    "update_releases helm a d items (dict_set res n x)
       (w\<lparr>helm_calls := helm_calls w @
            [update_call (organization a) (context_name a) (namespace a) d n c]\<rparr>) = (Inr r, w')"
    by (simp add: call_helm_def)
  from Cons.IH[OF this] show ?case using p by simp
qed

lemma update_releases_db:
  "db (snd (update_releases helm a d items res w)) = db w"
  by (induction items arbitrary: res w) (auto simp: call_helm_def split: sum.splits)



subsection \<open>Update of user inputs: the checks on the new inputs\<close>

text \<open>
  Where the two checks are reached and every immutable input of the schema has a value on
  both sides, they do what is asked of them. If the key set of the new inputs differs from
  the key set of the stored inputs, \<open>update_user_inputs\<close> raises
  \<^verbatim>\<open>InvalidUserInputsException\<close> and leaves the world as it was: no call to the Helm manager,
  nothing saved. If the key sets are equal and Python's \<^verbatim>\<open>!=\<close> holds between the new and the
  stored value of at least one immutable input, it raises one \<^verbatim>\<open>InvalidUserInputsException\<close>
  whose message lists all such inputs, in schema order, and again leaves the world as it was.
\<close>

lemma update_inputs_checks:
  assumes "load_template tu (manifest a) = Inr old_schema"
    and "validate_inputs tu (manifest a) inps = None"
  shows "(dict_keys inps \<noteq> dict_keys (user_inputs a) \<longrightarrow>
            update_user_inputs tu helm iter py_ne a inps dry_run w =
              (Inl (InvalidUserInputsException
                      ''List of current and new inputs are not equal.''), w)) \<and>
         (dict_keys inps = dict_keys (user_inputs a) \<and>
          set (immutable_inputs old_schema) \<subseteq> dict_keys inps \<and>
          (\<exists>n \<in> set (immutable_inputs old_schema).
             py_ne (the (map_of inps n)) (the (map_of (user_inputs a) n))) \<longrightarrow>
            update_user_inputs tu helm iter py_ne a inps dry_run w =
              (Inl (InvalidUserInputsException
                      (''Next inputs are immutable and cannot be changed: '' @
                       join '', ''
                         (filter (\<lambda>n. py_ne (the (map_of inps n))
                                      (the (map_of (user_inputs a) n)))
                            (immutable_inputs old_schema)) @ ''.'')), w))"
proof (intro conjI impI)
  assume "dict_keys inps \<noteq> dict_keys (user_inputs a)"
  then show "update_user_inputs tu helm iter py_ne a inps dry_run w =
               (Inl (InvalidUserInputsException
                       ''List of current and new inputs are not equal.''), w)"
    using assms by (simp add: update_user_inputs_def)
next
  assume h: "dict_keys inps = dict_keys (user_inputs a) \<and>
          set (immutable_inputs old_schema) \<subseteq> dict_keys inps \<and>
          (\<exists>n \<in> set (immutable_inputs old_schema).
             py_ne (the (map_of inps n)) (the (map_of (user_inputs a) n)))"
  let ?v = "filter (\<lambda>n. py_ne (the (map_of inps n)) (the (map_of (user_inputs a) n)))
              (immutable_inputs old_schema)"
  from h have s1: "set (immutable_inputs old_schema) \<subseteq> dict_keys inps"
    and s2: "set (immutable_inputs old_schema) \<subseteq> dict_keys (user_inputs a)"
    by auto
  have v: "violating_inputs py_ne inps (user_inputs a) (immutable_inputs old_schema) [] = Inr ?v"
    using violating_inputs_filter[OF s1 s2, of py_ne "[]"] by simp
  from h have ne: "?v \<noteq> []" by (auto simp: filter_empty_conv)
  show "update_user_inputs tu helm iter py_ne a inps dry_run w =
              (Inl (InvalidUserInputsException
                      (''Next inputs are immutable and cannot be changed: '' @
                       join '', '' ?v @ ''.'')), w)"
    using assms h v ne by (simp add: update_user_inputs_def)
qed

text \<open>
  C6. The claim: whenever one or more immutable inputs have a new value that differs from the
  stored one, \<open>update_user_inputs\<close> fails with a single \<^verbatim>\<open>InvalidUserInputsException\<close> that
  lists all of them. The code misses a case. The loop subscripts both dicts with every
  immutable input of the schema, so an immutable input that has no value in the inputs makes
  the comparison itself raise \<^verbatim>\<open>KeyError\<close>. Here the schema declares the immutable inputs
  \<open>region\<close> and \<open>zone\<close>, \<open>zone\<close> with a default; the stored inputs give \<open>region\<close> and
  \<open>replicas\<close>; the new inputs have the same keys and change \<open>region\<close>. The call raises
  \<^verbatim>\<open>KeyError\<close> for \<open>zone\<close> where the claim has an \<^verbatim>\<open>InvalidUserInputsException\<close> naming
  \<open>region\<close>.
\<close>

theorem update_inputs_immutable_keyerror:
  "update_user_inputs ex_tu ex_helm_ok ex_iter ex_ne
     (ex_app ''cfg'' ''cfg'' [(''region'', ''us-east''), (''replicas'', ''2'')])
     [(''region'', ''us-west''), (''replicas'', ''3'')] False ex_world =
     (Inl (KeyError ''zone''), ex_world)"
proof -
  have eq: "dict_keys [(''region'', ''us-west''), (''replicas'', ''3'')] =
              dict_keys [(''region'', ''us-east''), (''replicas'', ''2'')]"
    by (simp add: dict_keys_def)
  show ?thesis
    by (simp add: update_user_inputs_def ex_tu_def ex_app_def eq immutable_inputs_def
          ex_schema_def ex_inputs_def dict_get_def ex_ne_def)
qed

subsection \<open>Update of user inputs: releases absent from the new manifest\<close>



subsection \<open>Update of user inputs: what is persisted\<close>

text \<open>
  C10. When a non-dry-run \<open>update_user_inputs\<close> returns normally, the record saved under
  the identity of the application is the application with its \<open>manifest\<close> replaced by the
  new rendering and every other field as before: in particular \<open>user_inputs\<close> and
  \<open>template\<close> are the stored ones, not the inputs just applied. No other record changes.
  So the key-set check and the collection of violating inputs of a later
  \<open>update_user_inputs\<close> on the saved record compare with the inputs stored before the call.
\<close>

theorem update_inputs_persists_manifest_only:
  assumes "fst (update_user_inputs tu helm iter py_ne a inps False w) = Inr res"
  shows "\<exists>a'. records (db (snd (update_user_inputs tu helm iter py_ne a inps False w))) (app_id a) =
                 Some a' \<and>
              a' = a\<lparr>manifest := manifest a'\<rparr> \<and>
              render_template tu (tr_template (template a)) inps = Inr (manifest a') \<and>
              user_inputs a' = user_inputs a \<and>
              template a' = template a \<and>
              (\<forall>i. i \<noteq> app_id a \<longrightarrow>
                 records (db (snd (update_user_inputs tu helm iter py_ne a inps False w))) i =
                   records (db w) i) \<and>
              (\<forall>inps2. (dict_keys inps2 \<noteq> dict_keys (user_inputs a')) =
                          (dict_keys inps2 \<noteq> dict_keys (user_inputs a)) \<and>
                       (\<forall>names. violating_inputs py_ne inps2 (user_inputs a') names [] =
                                  violating_inputs py_ne inps2 (user_inputs a) names []))"
proof -
  from assms obtain old_schema new_manifes new_schema w1 where
    l1: "load_template tu (manifest a) = Inr old_schema"
    and v: "validate_inputs tu (manifest a) inps = None"
    and k: "dict_keys inps = dict_keys (user_inputs a)"
    and vi: "violating_inputs py_ne inps (user_inputs a) (immutable_inputs old_schema) [] = Inr []"
    and r: "render_template tu (tr_template (template a)) inps = Inr new_manifes"
    and l2: "load_template tu new_manifes = Inr new_schema"
    and u: "update_releases helm a False (chart_mapping new_schema) [] w = (Inr res, w1)"
    by (auto simp: update_user_inputs_def Let_def
             split: sum.splits option.splits if_splits prod.splits)
  have e: "update_user_inputs tu helm iter py_ne a inps False w =
              (Inr res, w1\<lparr>db := db_save (db w1) (a\<lparr>manifest := new_manifes\<rparr>)\<rparr>)"
    using l1 v k vi r l2 u by (simp add: update_user_inputs_def Let_def)
  from update_releases_ok[OF u] have d: "db w1 = db w" by simp
  show ?thesis
    unfolding e using r d by (simp add: db_save_def)
qed

theorem update_inputs_persists_manifest_only_witness:
  "user_inputs (the (records (db (snd (update_user_inputs ex_tu ex_helm_ok ex_iter ex_ne
       (ex_app ''cfg'' ''ab'' [(''region'', ''us-east''), (''zone'', ''z1''), (''replicas'', ''2'')])
       [(''region'', ''us-east''), (''zone'', ''z1''), (''replicas'', ''3'')] False
       (ex_world_of
          (ex_app ''cfg'' ''ab''
             [(''region'', ''us-east''), (''zone'', ''z1''), (''replicas'', ''2'')]))))) 5)) =
     [(''region'', ''us-east''), (''zone'', ''z1''), (''replicas'', ''2'')] \<and>
   render_template ex_tu ''ab''
     [(''region'', ''us-east''), (''zone'', ''z1''), (''replicas'', ''3'')] =
     Inr (manifest (the (records (db (snd (update_user_inputs ex_tu ex_helm_ok ex_iter ex_ne
       (ex_app ''cfg'' ''ab'' [(''region'', ''us-east''), (''zone'', ''z1''), (''replicas'', ''2'')])
       [(''region'', ''us-east''), (''zone'', ''z1''), (''replicas'', ''3'')] False
       (ex_world_of
          (ex_app ''cfg'' ''ab''
             [(''region'', ''us-east''), (''zone'', ''z1''), (''replicas'', ''2'')]))))) 5)))"
proof -
  let ?a = "ex_app ''cfg'' ''ab''
              [(''region'', ''us-east''), (''zone'', ''z1''), (''replicas'', ''2'')]"
  let ?i = "[(''region'', ''us-east''), (''zone'', ''z1''), (''replicas'', ''3'')]"
  have h: "fst (update_user_inputs ex_tu ex_helm_ok ex_iter ex_ne ?a ?i False (ex_world_of ?a)) =
             Inr [(''a'', ''done''), (''b'', ''done'')]"
    by (simp add: update_user_inputs_def ex_tu_def ex_app_def dict_keys_def ex_ne_def
          immutable_inputs_def ex_schema_def ex_inputs_def dict_get_def ex_chart_def
          call_helm_def ex_helm_ok_def)
  have i: "app_id ?a = 5" and t: "tr_template (template ?a) = ''ab''"
    and u: "user_inputs ?a = [(''region'', ''us-east''), (''zone'', ''z1''), (''replicas'', ''2'')]"
    by (simp_all add: ex_app_def)
  from update_inputs_persists_manifest_only[OF h]
  show ?thesis unfolding i t u by auto
qed

subsection \<open>Dry runs that succeed\<close>

lemma install_charts_ok:
  "install_charts helm org ctx ns d idx cs res w = (Inr r, w') \<Longrightarrow>
     helm_calls w' = helm_calls w @ map (install_call org ctx ns d) cs \<and> db w' = db w"
proof (induction cs arbitrary: idx res w)
  case Nil
  then show ?case by simp
next
  case (Cons c cs)
  from Cons.prems obtain x where
    x: "helm (helm_calls w) (install_call org ctx ns d c) = Inr x"
    by (auto simp: call_helm_def split: sum.splits)
  from Cons.prems x have
    "install_charts helm org ctx ns d (Suc idx) cs (dict_set res (ch_name c) x)
       (w\<lparr>helm_calls := helm_calls w @ [install_call org ctx ns d c]\<rparr>) = (Inr r, w')"
    by (simp add: call_helm_def)
  from Cons.IH[OF this] show ?case by simp
qed

lemma install_dry_run_success:
  assumes "fst (install tu helm ctx ns usr tmpl inps True w) = Inr r"
  shows "db (snd (install tu helm ctx ns usr tmpl inps True w)) = db w \<and>
         (\<forall>c \<in> set (drop (length (helm_calls w))
                      (helm_calls (snd (install tu helm ctx ns usr tmpl inps True w)))).
            call_dry_run c = Some True) \<and>
         (\<exists>rendered manifest_schema.
            render_template tu (tr_template tmpl) inps = Inr rendered \<and>
            load_template tu rendered = Inr manifest_schema \<and>
            helm_calls (snd (install tu helm ctx ns usr tmpl inps True w)) =
              helm_calls w @
              map (install_call (user_organization usr) ctx ns True) (charts manifest_schema))"
proof -
  from assms obtain rendered sch res w1 where
    v: "validate_inputs tu (tr_template tmpl) inps = None"
    and rn: "render_template tu (tr_template tmpl) inps = Inr rendered"
    and l: "load_template tu rendered = Inr sch"
    and i: "install_charts helm (user_organization usr) ctx ns True 0 (charts sch) [] w =
              (Inr res, w1)"
    by (auto simp: install_def split: sum.splits option.splits prod.splits)
  have e: "install tu helm ctx ns usr tmpl inps True w = (Inr (None, res), w1)"
    using v rn l i by (simp add: install_def)
  from install_charts_ok[OF i] show ?thesis
    unfolding e using rn l by (simp add: install_call_def)
qed

lemma upgrade_dry_run_success:
  assumes "fst (upgrade tu helm iter a tmpl True w) = Inr r"
  shows "db (snd (upgrade tu helm iter a tmpl True w)) = db w \<and>
         (\<forall>c \<in> set (drop (length (helm_calls w))
                      (helm_calls (snd (upgrade tu helm iter a tmpl True w)))).
            call_dry_run c = Some True) \<and>
         (\<exists>new_template_schema rendered new_schema old_schema.
            load_template tu (tr_template tmpl) = Inr new_template_schema \<and>
            render_template tu (tr_template tmpl) (merged_inputs new_template_schema a) =
              Inr rendered \<and>
            load_template tu rendered = Inr new_schema \<and>
            load_template tu (manifest a) = Inr old_schema \<and>
            helm_calls (snd (upgrade tu helm iter a tmpl True w)) =
              helm_calls w @
              map (\<lambda>n. install_call (organization a) (context_name a) (namespace a) True
                         (the (map_of (chart_mapping new_schema) n)))
                (iter (charts_to_install old_schema new_schema)) @
              map (\<lambda>n. update_call (organization a) (context_name a) (namespace a) True n
                         (the (map_of (chart_mapping new_schema) n)))
                (iter (releases_to_update old_schema new_schema)) @
              map (\<lambda>n. UninstallRelease (organization a) (context_name a) (namespace a)
                         (ch_name (the (map_of (chart_mapping old_schema) n))) (Some True))
                (iter (releases_to_remove old_schema new_schema)))"
proof -
  from assms obtain nts rendered new old ires w1 ures w2 u w3 where
    l0: "load_template tu (tr_template tmpl) = Inr nts"
    and rn: "render_template tu (tr_template tmpl) (merged_inputs nts a) = Inr rendered"
    and l1: "load_template tu rendered = Inr new"
    and l2: "load_template tu (manifest a) = Inr old"
    and p1: "upgrade_install helm a tmpl True (chart_mapping new)
               (iter (charts_to_install old new)) [] [] w = (Inr ires, w1)"
    and p2: "upgrade_update helm a True (chart_mapping new)
               (iter (releases_to_update old new)) [] w1 = (Inr ures, w2)"
    and p3: "upgrade_remove helm a True (chart_mapping old)
               (iter (releases_to_remove old new)) w2 = (Inr u, w3)"
    by (auto simp: upgrade_def split: sum.splits prod.splits)
  have e: "upgrade tu helm iter a tmpl True w =
             (Inr (ires, ures, iter (releases_to_remove old new)), w3)"
    using l0 rn l1 l2 p1 p2 p3 by (simp add: upgrade_def)
  from upgrade_install_ok[OF p1] upgrade_update_ok[OF p2] upgrade_remove_ok[OF p3]
  have c: "helm_calls w3 =
              helm_calls w @
              map (\<lambda>n. install_call (organization a) (context_name a) (namespace a) True
                         (the (map_of (chart_mapping new) n)))
                (iter (charts_to_install old new)) @
              map (\<lambda>n. update_call (organization a) (context_name a) (namespace a) True n
                         (the (map_of (chart_mapping new) n)))
                (iter (releases_to_update old new)) @
              map (\<lambda>n. UninstallRelease (organization a) (context_name a) (namespace a)
                         (ch_name (the (map_of (chart_mapping old) n))) (Some True))
                (iter (releases_to_remove old new))"
    and d: "db w3 = db w"
    by simp_all
  have f: "\<forall>c \<in> set (drop (length (helm_calls w)) (helm_calls w3)). call_dry_run c = Some True"
    unfolding c by (auto simp: install_call_def update_call_def)
  show ?thesis
    unfolding e using l0 rn l1 l2 c d f by auto
qed

lemma update_inputs_dry_run_success:
  assumes "fst (update_user_inputs tu helm iter py_ne a inps True w) = Inr r"
  shows "db (snd (update_user_inputs tu helm iter py_ne a inps True w)) = db w \<and>
         (\<forall>c \<in> set (drop (length (helm_calls w))
                      (helm_calls (snd (update_user_inputs tu helm iter py_ne a inps True w)))).
            call_dry_run c = Some True) \<and>
         (\<exists>new_manifes new_schema.
            render_template tu (tr_template (template a)) inps = Inr new_manifes \<and>
            load_template tu new_manifes = Inr new_schema \<and>
            helm_calls (snd (update_user_inputs tu helm iter py_ne a inps True w)) =
              helm_calls w @
              map (\<lambda>(n, c). update_call (organization a) (context_name a) (namespace a)
                               True n c) (chart_mapping new_schema))"
proof -
  from assms obtain old_schema new_manifes new_schema w1 where
    l1: "load_template tu (manifest a) = Inr old_schema"
    and v: "validate_inputs tu (manifest a) inps = None"
    and k: "dict_keys inps = dict_keys (user_inputs a)"
    and vi: "violating_inputs py_ne inps (user_inputs a) (immutable_inputs old_schema) [] = Inr []"
    and rn: "render_template tu (tr_template (template a)) inps = Inr new_manifes"
    and l2: "load_template tu new_manifes = Inr new_schema"
    and u: "update_releases helm a True (chart_mapping new_schema) [] w = (Inr r, w1)"
    by (auto simp: update_user_inputs_def Let_def
             split: sum.splits option.splits if_splits prod.splits)
  have e: "update_user_inputs tu helm iter py_ne a inps True w = (Inr r, w1)"
    using l1 v k vi rn l2 u by (simp add: update_user_inputs_def Let_def)
  from update_releases_ok[OF u] have
    c: "helm_calls w1 = helm_calls w @
          map (\<lambda>(n, c). update_call (organization a) (context_name a) (namespace a) True n c)
            (chart_mapping new_schema)"
    and d: "db w1 = db w"
    by simp_all
  have f: "\<forall>c \<in> set (drop (length (helm_calls w)) (helm_calls w1)). call_dry_run c = Some True"
    unfolding c by (auto simp: update_call_def)
  show ?thesis
    unfolding e using rn l2 c d f by auto
qed


text \<open>
  C8. When \<open>install\<close>, \<open>upgrade\<close> or \<open>update_user_inputs\<close> is called with the dry-run flag
  and returns normally, the database is as it was: no record is created or saved. The calls
  to the Helm manager are still issued, each with its dry-run flag set to true: the install
  call of every chart of the manifest for \<open>install\<close>; the install, update and uninstall
  calls of the three key sets for \<open>upgrade\<close>; the update call of every release of the new
  mapping for \<open>update_user_inputs\<close>.
\<close>

theorem dry_run_no_persistence:
  "(fst (install tu helm ctx ns usr tmpl inps True w) = Inr r1 \<longrightarrow>
      db (snd (install tu helm ctx ns usr tmpl inps True w)) = db w \<and>
            (\<forall>c \<in> set (drop (length (helm_calls w))
                         (helm_calls (snd (install tu helm ctx ns usr tmpl inps True w)))).
               call_dry_run c = Some True) \<and>
            (\<exists>rendered manifest_schema.
               render_template tu (tr_template tmpl) inps = Inr rendered \<and>
               load_template tu rendered = Inr manifest_schema \<and>
               helm_calls (snd (install tu helm ctx ns usr tmpl inps True w)) =
                 helm_calls w @
                 map (install_call (user_organization usr) ctx ns True) (charts manifest_schema))) \<and>
   (fst (upgrade tu helm iter a tmpl2 True w2) = Inr r2 \<longrightarrow>
      db (snd (upgrade tu helm iter a tmpl2 True w2)) = db w2 \<and>
            (\<forall>c \<in> set (drop (length (helm_calls w2))
                         (helm_calls (snd (upgrade tu helm iter a tmpl2 True w2)))).
               call_dry_run c = Some True) \<and>
            (\<exists>new_template_schema rendered new_schema old_schema.
               load_template tu (tr_template tmpl2) = Inr new_template_schema \<and>
               render_template tu (tr_template tmpl2) (merged_inputs new_template_schema a) =
                 Inr rendered \<and>
               load_template tu rendered = Inr new_schema \<and>
               load_template tu (manifest a) = Inr old_schema \<and>
               helm_calls (snd (upgrade tu helm iter a tmpl2 True w2)) =
                 helm_calls w2 @
                 map (\<lambda>n. install_call (organization a) (context_name a) (namespace a) True
                            (the (map_of (chart_mapping new_schema) n)))
                   (iter (charts_to_install old_schema new_schema)) @
                 map (\<lambda>n. update_call (organization a) (context_name a) (namespace a) True n
                            (the (map_of (chart_mapping new_schema) n)))
                   (iter (releases_to_update old_schema new_schema)) @
                 map (\<lambda>n. UninstallRelease (organization a) (context_name a) (namespace a)
                            (ch_name (the (map_of (chart_mapping old_schema) n))) (Some True))
                   (iter (releases_to_remove old_schema new_schema)))) \<and>
   (fst (update_user_inputs tu helm iter py_ne a3 inps3 True w3) = Inr r3 \<longrightarrow>
      db (snd (update_user_inputs tu helm iter py_ne a3 inps3 True w3)) = db w3 \<and>
            (\<forall>c \<in> set (drop (length (helm_calls w3))
                         (helm_calls (snd (update_user_inputs tu helm iter py_ne a3 inps3 True w3)))).
               call_dry_run c = Some True) \<and>
            (\<exists>new_manifes new_schema.
               render_template tu (tr_template (template a3)) inps3 = Inr new_manifes \<and>
               load_template tu new_manifes = Inr new_schema \<and>
               helm_calls (snd (update_user_inputs tu helm iter py_ne a3 inps3 True w3)) =
                 helm_calls w3 @
                 map (\<lambda>(n, c). update_call (organization a3) (context_name a3) (namespace a3)
                                  True n c) (chart_mapping new_schema)))"
  by (rule conjI, rule impI, erule install_dry_run_success,
      rule conjI, rule impI, erule upgrade_dry_run_success,
      rule impI, erule update_inputs_dry_run_success)

theorem dry_run_no_persistence_witness:
  "db (snd (install ex_tu ex_helm ''ctx'' ''ns'' ex_user \<lparr>tr_id = 7, tr_template = ''ab''\<rparr> []
              True ex_world)) = db ex_world \<and>
   helm_calls (snd (install ex_tu ex_helm ''ctx'' ''ns'' ex_user
              \<lparr>tr_id = 7, tr_template = ''ab''\<rparr> [] True ex_world)) =
     [install_call ex_org ''ctx'' ''ns'' True (ex_chart ''a''),
      install_call ex_org ''ctx'' ''ns'' True (ex_chart ''b'')] \<and>
   db (snd (upgrade ex_tu ex_helm_ok ex_iter (ex_app ''ab'' ''ab'' [])
              \<lparr>tr_id = 8, tr_template = ''bc''\<rparr> True (ex_world_of (ex_app ''ab'' ''ab'' [])))) =
     db (ex_world_of (ex_app ''ab'' ''ab'' [])) \<and>
   helm_calls (snd (upgrade ex_tu ex_helm_ok ex_iter (ex_app ''ab'' ''ab'' [])
              \<lparr>tr_id = 8, tr_template = ''bc''\<rparr> True (ex_world_of (ex_app ''ab'' ''ab'' [])))) =
     [install_call ex_org ''ctx'' ''ns'' True (ex_chart ''c''),
      update_call ex_org ''ctx'' ''ns'' True ''b'' (ex_chart ''b''),
      UninstallRelease ex_org ''ctx'' ''ns'' ''a'' (Some True)] \<and>
   db (snd (update_user_inputs ex_tu ex_helm_ok ex_iter ex_ne (ex_app ''ab'' ''bc'' []) [] True
              (ex_world_of (ex_app ''ab'' ''bc'' [])))) =
     db (ex_world_of (ex_app ''ab'' ''bc'' [])) \<and>
   helm_calls (snd (update_user_inputs ex_tu ex_helm_ok ex_iter ex_ne (ex_app ''ab'' ''bc'' []) [] True
              (ex_world_of (ex_app ''ab'' ''bc'' [])))) =
     [update_call ex_org ''ctx'' ''ns'' True ''b'' (ex_chart ''b''),
      update_call ex_org ''ctx'' ''ns'' True ''c'' (ex_chart ''c'')]"
proof -
  let ?t = "\<lparr>tr_id = 7, tr_template = ''ab''\<rparr>"
  let ?t2 = "\<lparr>tr_id = 8, tr_template = ''bc''\<rparr>"
  let ?a = "ex_app ''ab'' ''ab'' []"
  let ?a3 = "ex_app ''ab'' ''bc'' []"
  have h1: "fst (install ex_tu ex_helm ''ctx'' ''ns'' ex_user ?t [] True ex_world) =
              Inr (None, [(''a'', ''installed''), (''b'', ''installed'')])"
    by (simp add: install_def ex_tu_def ex_schema_def ex_chart_def call_helm_def
          install_call_def ex_helm_def)
  have h2: "fst (upgrade ex_tu ex_helm_ok ex_iter ?a ?t2 True (ex_world_of ?a)) =
              Inr ([(''c'', ''done'')], [(''b'', ''done'')], [''a''])"
    by (simp add: upgrade_def ex_tu_def ex_app_def ex_iter_def charts_to_install_def
          releases_to_update_def releases_to_remove_def dict_keys_def ex_schema_def ex_chart_def
          dict_get_def call_helm_def install_call_def update_call_def ex_helm_ok_def)
  have h3: "fst (update_user_inputs ex_tu ex_helm_ok ex_iter ex_ne ?a3 [] True (ex_world_of ?a3)) =
              Inr [(''b'', ''done''), (''c'', ''done'')]"
    by (simp add: update_user_inputs_def ex_tu_def ex_app_def dict_keys_def ex_ne_def
          immutable_inputs_def ex_schema_def ex_chart_def call_helm_def ex_helm_ok_def)
  have s: "ex_iter (charts_to_install
                      (ex_schema [] [ex_chart ''a'', ex_chart ''b''])
                      (ex_schema [] [ex_chart ''b'', ex_chart ''c''])) = [''c'']"
     "ex_iter (releases_to_update
                      (ex_schema [] [ex_chart ''a'', ex_chart ''b''])
                      (ex_schema [] [ex_chart ''b'', ex_chart ''c''])) = [''b'']"
     "ex_iter (releases_to_remove
                      (ex_schema [] [ex_chart ''a'', ex_chart ''b''])
                      (ex_schema [] [ex_chart ''b'', ex_chart ''c''])) = [''a'']"
    by (simp_all add: ex_iter_def charts_to_install_def releases_to_update_def
          releases_to_remove_def dict_keys_def ex_schema_def ex_chart_def)
  have m: "chart_mapping (ex_schema [] [ex_chart ''b'', ex_chart ''c'']) =
             [(''b'', ex_chart ''b''), (''c'', ex_chart ''c'')]"
     "chart_mapping (ex_schema [] [ex_chart ''a'', ex_chart ''b'']) =
             [(''a'', ex_chart ''a''), (''b'', ex_chart ''b'')]"
     "charts (ex_schema [] [ex_chart ''a'', ex_chart ''b'']) = [ex_chart ''a'', ex_chart ''b'']"
    by (simp_all add: ex_schema_def ex_chart_def)
  have n: "ch_name (ex_chart ''a'') = ''a''" by (simp add: ex_chart_def)
  from dry_run_no_persistence[of ex_tu ex_helm "''ctx''" "''ns''" ex_user ?t "[]" ex_world]
       h1
  have c1: "db (snd (install ex_tu ex_helm ''ctx'' ''ns'' ex_user ?t [] True ex_world)) =
              db ex_world \<and>
            helm_calls (snd (install ex_tu ex_helm ''ctx'' ''ns'' ex_user ?t [] True ex_world)) =
              [install_call ex_org ''ctx'' ''ns'' True (ex_chart ''a''),
               install_call ex_org ''ctx'' ''ns'' True (ex_chart ''b'')]"
    by (simp add: ex_tu_def m ex_world_def ex_user_def)
  from dry_run_no_persistence[where tu = ex_tu and helm = ex_helm_ok and iter = ex_iter
         and a = ?a and ?tmpl2.0 = ?t2 and ?w2.0 = "ex_world_of ?a"] h2
  have c2: "db (snd (upgrade ex_tu ex_helm_ok ex_iter ?a ?t2 True (ex_world_of ?a))) =
              db (ex_world_of ?a) \<and>
            helm_calls (snd (upgrade ex_tu ex_helm_ok ex_iter ?a ?t2 True (ex_world_of ?a))) =
              [install_call ex_org ''ctx'' ''ns'' True (ex_chart ''c''),
               update_call ex_org ''ctx'' ''ns'' True ''b'' (ex_chart ''b''),
               UninstallRelease ex_org ''ctx'' ''ns'' ''a'' (Some True)]"
    by (simp add: ex_tu_def ex_app_def s m n ex_world_of_def)
  from dry_run_no_persistence[where tu = ex_tu and helm = ex_helm_ok and iter = ex_iter
         and py_ne = ex_ne
         and ?a3.0 = ?a3 and ?inps3.0 = "[]" and ?w3.0 = "ex_world_of ?a3"] h3
  have c3: "db (snd (update_user_inputs ex_tu ex_helm_ok ex_iter ex_ne ?a3 [] True (ex_world_of ?a3))) =
              db (ex_world_of ?a3) \<and>
            helm_calls (snd (update_user_inputs ex_tu ex_helm_ok ex_iter ex_ne ?a3 [] True
                               (ex_world_of ?a3))) =
              [update_call ex_org ''ctx'' ''ns'' True ''b'' (ex_chart ''b''),
               update_call ex_org ''ctx'' ''ns'' True ''c'' (ex_chart ''c'')]"
    by (simp add: ex_tu_def ex_app_def m ex_world_of_def)
  from c1 c2 c3 show ?thesis by simp
qed

end
